theory Spec2Isabelle
  imports Complex_Main
begin

section \<open>Conventions of the embedding\<close>

text \<open>
  The theory embeds \<^verbatim>\<open>src/btc_bot.py\<close>. Python floats are modelled by the real
  numbers they denote: arithmetic is exact, and infinities and NaN are not values of the
  model. Python's unbounded integers are \<open>int\<close>. A Python \<^verbatim>\<open>str\<close> is a
  \<open>string\<close>, read as the bytes of its UTF-8 encoding. The emoji that open the log and
  signal texts of the source are left out of the string constants.
\<close>

subsection \<open>Built-in \<^verbatim>\<open>min\<close> and \<^verbatim>\<open>max\<close> on two arguments\<close>

text \<open>
  Python keeps the first argument unless the second is strictly smaller (for
  \<^verbatim>\<open>min\<close>) or strictly greater (for \<^verbatim>\<open>max\<close>).
\<close>

definition py_min :: "real \<Rightarrow> real \<Rightarrow> real" where
  "py_min a b = (if b < a then b else a)"

definition py_max :: "real \<Rightarrow> real \<Rightarrow> real" where
  "py_max a b = (if b > a then b else a)"

section \<open>Python values and built-in operations\<close>

subsection \<open>Exceptions\<close>

text \<open>
  The exception classes that the modelled code can meet. \<open>Exception msg\<close> is a plain
  \<^verbatim>\<open>raise Exception(...)\<close> of the source, with the constant part of its message. Every
  class here derives from Python's \<^verbatim>\<open>Exception\<close>, so an \<^verbatim>\<open>except Exception\<close> clause and
  a bare \<^verbatim>\<open>except\<close> catch all of them. A function of the source that can raise returns
  \<open>exn + 'a\<close> in the model, \<open>Inl\<close> carrying the exception.
\<close>

datatype exn =
  TypeError | KeyError | IndexError | ValueError | AttributeError | OverflowError
  | ZeroDivisionError | BinasciiError | Timeout | RequestException | Exception string

text \<open>Sequencing of two steps, the second of which runs only if the first did not raise.\<close>

definition bind_exn :: "exn + 'a \<Rightarrow> ('a \<Rightarrow> exn + 'b) \<Rightarrow> exn + 'b" where
  "bind_exn r f = (case r of Inl e \<Rightarrow> Inl e | Inr v \<Rightarrow> f v)"

subsection \<open>Decoded JSON\<close>

text \<open>
  The values that \<^verbatim>\<open>json.loads\<close> produces: \<^verbatim>\<open>None\<close>, booleans, integers, floats,
  strings, lists and dictionaries with string keys. A dictionary is the list of its items
  in insertion order.
\<close>

datatype json =
  JNull | JBool bool | JInt int | JFloat real | JStr string
  | JArr "json list" | JObj "(string \<times> json) list"

text \<open>\<^verbatim>\<open>d.get(key, default)\<close> and \<^verbatim>\<open>d[key] = value\<close> on the items of a dictionary.\<close>

definition dict_get :: "(string \<times> json) list \<Rightarrow> string \<Rightarrow> json \<Rightarrow> json" where
  "dict_get items key dflt = (case map_of items key of None \<Rightarrow> dflt | Some v \<Rightarrow> v)"

fun dict_set :: "(string \<times> json) list \<Rightarrow> string \<Rightarrow> json \<Rightarrow> (string \<times> json) list" where
  "dict_set [] key v = [(key, v)]"
| "dict_set ((k, w) # items) key v =
     (if k = key then (k, v) # items else (k, w) # dict_set items key v)"

text \<open>Substring test, for \<^verbatim>\<open>key in text\<close> on strings.\<close>

fun is_prefix :: "string \<Rightarrow> string \<Rightarrow> bool" where
  "is_prefix [] t = True"
| "is_prefix (c # s) [] = False"
| "is_prefix (c # s) (d # t) = (c = d \<and> is_prefix s t)"

fun is_substring :: "string \<Rightarrow> string \<Rightarrow> bool" where
  "is_substring s [] = (s = [])"
| "is_substring s (d # t) = (is_prefix s (d # t) \<or> is_substring s t)"

text \<open>
  \<^verbatim>\<open>key in x\<close> for a string \<open>key\<close>: among the keys of a dictionary, among the elements
  of a list, as a substring of a string; any other operand is not iterable.
\<close>

fun py_in :: "string \<Rightarrow> json \<Rightarrow> exn + bool" where
  "py_in key (JObj items) = Inr (map_of items key \<noteq> None)"
| "py_in key (JArr xs) = Inr (List.member xs (JStr key))"
| "py_in key (JStr s) = Inr (is_substring key s)"
| "py_in key JNull = Inl TypeError"
| "py_in key (JBool b) = Inl TypeError"
| "py_in key (JInt i) = Inl TypeError"
| "py_in key (JFloat r) = Inl TypeError"

text \<open>
  The test \<^verbatim>\<open>'error' in x or 'statusCode' in x\<close> that the bot applies to every reply of
  the client; \<^verbatim>\<open>or\<close> evaluates its second operand only when the first is false.
\<close>

definition is_error_reply :: "json \<Rightarrow> exn + bool" where
  "is_error_reply x =
     bind_exn (py_in ''error'' x)
       (\<lambda>found. if found then Inr True else py_in ''statusCode'' x)"

text \<open>
  \<^verbatim>\<open>x.get(...)\<close> inside the message of an API-error exception: only a dictionary has the
  method, so on a list or a string the \<^verbatim>\<open>raise\<close> statement raises \<^verbatim>\<open>AttributeError\<close>
  instead of the exception it was building.
\<close>

fun raise_api_error :: "string \<Rightarrow> json \<Rightarrow> exn" where
  "raise_api_error msg (JObj items) = Exception msg"
| "raise_api_error msg x = AttributeError"

text \<open>
  \<^verbatim>\<open>x[key]\<close> with a string key and \<^verbatim>\<open>x[i]\<close> with an integer index; a negative
  index counts from the end of a list.
\<close>

fun py_getitem_str :: "json \<Rightarrow> string \<Rightarrow> exn + json" where
  "py_getitem_str (JObj items) key =
     (case map_of items key of None \<Rightarrow> Inl KeyError | Some v \<Rightarrow> Inr v)"
| "py_getitem_str x key = Inl TypeError"

definition list_index :: "'a list \<Rightarrow> int \<Rightarrow> exn + 'a" where
  "list_index xs i =
     (if 0 \<le> i \<and> i < int (length xs) then Inr (xs ! nat i)
      else if i < 0 \<and> - i \<le> int (length xs) then Inr (xs ! nat (int (length xs) + i))
      else Inl IndexError)"

text \<open>
  A string is indexed by byte, which is Python's indexing on ASCII text. The keys of a
  decoded dictionary are strings, so an integer is never among them.
\<close>

fun py_getitem_int :: "json \<Rightarrow> int \<Rightarrow> exn + json" where
  "py_getitem_int (JArr xs) i = list_index xs i"
| "py_getitem_int (JStr s) i = bind_exn (list_index s i) (\<lambda>c. Inr (JStr [c]))"
| "py_getitem_int (JObj items) i = Inl KeyError"
| "py_getitem_int x i = Inl TypeError"

text \<open>Truth value, \<^verbatim>\<open>len\<close> and \<^verbatim>\<open>reversed\<close>.\<close>

fun py_truthy :: "json \<Rightarrow> bool" where
  "py_truthy JNull = False"
| "py_truthy (JBool b) = b"
| "py_truthy (JInt i) = (i \<noteq> 0)"
| "py_truthy (JFloat r) = (r \<noteq> 0)"
| "py_truthy (JStr s) = (s \<noteq> [])"
| "py_truthy (JArr xs) = (xs \<noteq> [])"
| "py_truthy (JObj items) = (items \<noteq> [])"

fun py_len :: "json \<Rightarrow> exn + nat" where
  "py_len (JArr xs) = Inr (length xs)"
| "py_len (JStr s) = Inr (length s)"
| "py_len (JObj items) = Inr (length items)"
| "py_len x = Inl TypeError"

fun py_reversed :: "json \<Rightarrow> exn + json list" where
  "py_reversed (JArr xs) = Inr (rev xs)"
| "py_reversed (JStr s) = Inr (map (\<lambda>c. JStr [c]) (rev s))"
| "py_reversed (JObj items) = Inr (map (\<lambda>(k, v). JStr k) (rev items))"
| "py_reversed x = Inl TypeError"

subsection \<open>Numeric conversions\<close>

text \<open>
  \<^verbatim>\<open>float(x)\<close> and \<^verbatim>\<open>int(x)\<close>. Parsing a string is the library's work and is a
  parameter of the model: \<open>float_str s\<close> and \<open>int_str s\<close> give the number that Python
  reads from \<open>s\<close>, or \<open>None\<close> where Python raises \<^verbatim>\<open>ValueError\<close>. An integer beyond the
  range of a double does not convert.
\<close>

definition float_overflow :: int where
  "float_overflow = 2 ^ 1024 - 2 ^ 970"

fun py_float :: "(string \<Rightarrow> real option) \<Rightarrow> json \<Rightarrow> exn + real" where
  "py_float float_str (JStr s) =
     (case float_str s of None \<Rightarrow> Inl ValueError | Some r \<Rightarrow> Inr r)"
| "py_float float_str (JInt i) =
     (if \<bar>i\<bar> < float_overflow then Inr (of_int i) else Inl OverflowError)"
| "py_float float_str (JFloat r) = Inr r"
| "py_float float_str (JBool b) = Inr (if b then 1 else 0)"
| "py_float float_str x = Inl TypeError"

fun py_int :: "(string \<Rightarrow> int option) \<Rightarrow> json \<Rightarrow> exn + int" where
  "py_int int_str (JStr s) =
     (case int_str s of None \<Rightarrow> Inl ValueError | Some i \<Rightarrow> Inr i)"
| "py_int int_str (JInt i) = Inr i"
| "py_int int_str (JFloat r) = Inr (if r < 0 then \<lceil>r\<rceil> else \<lfloor>r\<rfloor>)"
| "py_int int_str (JBool b) = Inr (if b then 1 else 0)"
| "py_int int_str x = Inl TypeError"

text \<open>
  The key under which a value is stored in a dictionary: lists and dictionaries are not
  hashable, and \<^verbatim>\<open>True\<close>, \<^verbatim>\<open>1\<close> and \<^verbatim>\<open>1.0\<close> are one key.
\<close>

fun dict_key :: "json \<Rightarrow> exn + json" where
  "dict_key (JArr xs) = Inl TypeError"
| "dict_key (JObj items) = Inl TypeError"
| "dict_key (JBool b) = Inr (JInt (if b then 1 else 0))"
| "dict_key (JFloat r) = Inr (if r = of_int \<lfloor>r\<rfloor> then JInt \<lfloor>r\<rfloor> else JFloat r)"
| "dict_key x = Inr x"

text \<open>Decimal text of an integer, \<^verbatim>\<open>str(n)\<close>.\<close>

definition digit_char :: "nat \<Rightarrow> char" where
  "digit_char d = char_of (48 + d)"

function str_nat :: "nat \<Rightarrow> string" where
  "str_nat n = (if n < 10 then [digit_char n] else str_nat (n div 10) @ [digit_char (n mod 10)])"
  by pat_completeness auto
termination
  by (relation "measure (\<lambda>n. n)") auto

definition str_int :: "int \<Rightarrow> string" where
  "str_int i = (if i < 0 then CHR ''-'' # str_nat (nat (- i)) else str_nat (nat i))"

section \<open>Library functions\<close>

text \<open>
  Bytes are \<open>char\<close>, the 8-bit type of HOL. \<^verbatim>\<open>hmac.new(key, msg, sha512).digest()\<close>,
  \<^verbatim>\<open>json.dumps\<close> with its separators and the string parsers of \<^verbatim>\<open>float\<close> and
  \<^verbatim>\<open>int\<close> are parameters of the functions that call them. Base64 is written out.
\<close>

type_synonym bytes = "char list"

type_synonym hmac_fun = "bytes \<Rightarrow> bytes \<Rightarrow> bytes"

type_synonym dumps_fun = "string \<times> string \<Rightarrow> json \<Rightarrow> string"

subsection \<open>\<^verbatim>\<open>base64.b64encode\<close>\<close>

definition b64_alphabet :: string where
  "b64_alphabet = ''ABCDEFGHIJKLMNOPQRSTUVWXYZabcdefghijklmnopqrstuvwxyz0123456789+/''"

definition b64_char :: "nat \<Rightarrow> char" where
  "b64_char n = b64_alphabet ! (n mod 64)"

fun b64_groups :: "nat list \<Rightarrow> string" where
  "b64_groups [] = []"
| "b64_groups [a] = [b64_char (a div 4), b64_char (a mod 4 * 16), CHR ''='', CHR ''='']"
| "b64_groups [a, b] =
     [b64_char (a div 4), b64_char (a mod 4 * 16 + b div 16), b64_char (b mod 16 * 4),
      CHR ''='']"
| "b64_groups (a # b # c # rest) =
     [b64_char (a div 4), b64_char (a mod 4 * 16 + b div 16),
      b64_char (b mod 16 * 4 + c div 64), b64_char (c mod 64)] @ b64_groups rest"

definition b64encode :: "bytes \<Rightarrow> string" where
  "b64encode bs = b64_groups (map of_char bs)"

subsection \<open>\<^verbatim>\<open>base64.b64decode\<close> with its default arguments\<close>

text \<open>
  The decoder behind \<^verbatim>\<open>base64.b64decode(s)\<close> is \<^verbatim>\<open>binascii.a2b_base64\<close> in its
  lenient mode. A string with a character outside ASCII is refused first
  (\<^verbatim>\<open>ValueError\<close>). The decoder then reads the text once, carrying the position in the
  current group of four, the bits left over and the run of padding: a character outside
  the alphabet is skipped; padding that completes a group ends the decoding and the rest
  of the text is not read; at the end of the text an unfinished group is refused
  (\<^verbatim>\<open>binascii.Error\<close>).
\<close>

fun index_of :: "'a \<Rightarrow> 'a list \<Rightarrow> nat option" where
  "index_of x [] = None"
| "index_of x (y # ys) = (if x = y then Some 0 else map_option Suc (index_of x ys))"

definition b64_value :: "char \<Rightarrow> nat option" where
  "b64_value c = index_of c b64_alphabet"

fun a2b_base64 :: "string \<Rightarrow> nat \<Rightarrow> nat \<Rightarrow> nat \<Rightarrow> bytes \<Rightarrow> exn + bytes" where
  "a2b_base64 [] quad_pos leftchar pads out =
     (if quad_pos = 0 then Inr out else Inl BinasciiError)"
| "a2b_base64 (c # cs) quad_pos leftchar pads out =
     (if c = CHR ''='' then
        (if quad_pos \<ge> 2 \<and> quad_pos + (pads + 1) \<ge> 4 then Inr out
         else a2b_base64 cs quad_pos leftchar (if quad_pos \<ge> 2 then pads + 1 else pads) out)
      else
        (case b64_value c of
           None \<Rightarrow> a2b_base64 cs quad_pos leftchar pads out
         | Some this_ch \<Rightarrow>
             (if quad_pos = 0 then a2b_base64 cs 1 this_ch 0 out
              else if quad_pos = 1 then
                a2b_base64 cs 2 (this_ch mod 16) 0
                  (out @ [char_of (leftchar * 4 + this_ch div 16)])
              else if quad_pos = 2 then
                a2b_base64 cs 3 (this_ch mod 4) 0
                  (out @ [char_of (leftchar * 16 + this_ch div 4)])
              else
                a2b_base64 cs 0 0 0 (out @ [char_of (leftchar * 64 + this_ch)]))))"

definition is_ascii :: "string \<Rightarrow> bool" where
  "is_ascii s = list_all (\<lambda>c. of_char c < (128::nat)) s"

definition b64decode :: "string \<Rightarrow> exn + bytes" where
  "b64decode s = (if is_ascii s then a2b_base64 s 0 0 0 [] else Inl ValueError)"

section \<open>The API client: class \<^verbatim>\<open>BTCMarketsClient\<close>\<close>

record client =
  base_url :: string
  api_key :: string
  private_key :: bytes

text \<open>\<^verbatim>\<open>__init__\<close>: the secret is decoded here, and a secret that does not decode raises here.\<close>

definition BTCMarketsClient_init :: "string \<Rightarrow> string \<Rightarrow> exn + client" where
  "BTCMarketsClient_init api_key_arg private_key_arg =
     bind_exn (b64decode private_key_arg)
       (\<lambda>decoded. Inr \<lparr>base_url = ''https://api.btcmarkets.net'', api_key = api_key_arg,
                        private_key = decoded\<rparr>)"

subsection \<open>Signing\<close>

text \<open>
  \<^verbatim>\<open>__sign_message\<close>. The message is already the bytes of its UTF-8 encoding and the
  signature is ASCII, so \<^verbatim>\<open>encode\<close> and \<^verbatim>\<open>decode\<close> change nothing.
\<close>

definition sign_message :: "hmac_fun \<Rightarrow> bytes \<Rightarrow> string \<Rightarrow> string" where
  "sign_message hmac_sha512 private_key_arg message =
     b64encode (hmac_sha512 private_key_arg message)"

text \<open>
  The clock: \<open>time_at n\<close> is what the \<open>n\<close>-th call of \<^verbatim>\<open>time.time()\<close> returns, and the
  state is the number of calls made so far. \<^verbatim>\<open>int\<close> of a float truncates towards zero.
\<close>

definition trunc :: "real \<Rightarrow> int" where
  "trunc r = (if r < 0 then \<lceil>r\<rceil> else \<lfloor>r\<rfloor>)"

definition time_time :: "(nat \<Rightarrow> real) \<Rightarrow> nat \<Rightarrow> real \<times> nat" where
  "time_time time_at reads = (time_at reads, Suc reads)"

text \<open>\<^verbatim>\<open>___build_headers\<close>: one reading of the clock, used in the message and in the header.\<close>

definition build_headers ::
  "hmac_fun \<Rightarrow> (nat \<Rightarrow> real) \<Rightarrow> string \<Rightarrow> string \<Rightarrow> bytes \<Rightarrow> string \<Rightarrow> string option \<Rightarrow> nat
     \<Rightarrow> (string \<times> string) list \<times> nat" where
  "build_headers hmac_sha512 time_at method api_key_arg private_key_arg path data reads =
     (let (t, reads') = time_time time_at reads;
          now = str_int (trunc (t * 1000));
          message = method @ path @ now;
          message = (case data of None \<Rightarrow> message | Some d \<Rightarrow> message @ d);
          signature = sign_message hmac_sha512 private_key_arg message;
          hdrs =
            [(''Accept'', ''application/json''),
             (''Accept-Charset'', ''UTF-8''),
             (''Content-Type'', ''application/json''),
             (''BM-AUTH-APIKEY'', api_key_arg),
             (''BM-AUTH-TIMESTAMP'', now),
             (''BM-AUTH-SIGNATURE'', signature),
             (''User-Agent'', ''BTC-Accumulation-Bot/2.0'')]
      in (hdrs, reads'))"

subsection \<open>The HTTP call\<close>

text \<open>
  What is handed to \<^verbatim>\<open>urlopen\<close>: the request object and, for a \<^verbatim>\<open>POST\<close> or \<^verbatim>\<open>PUT\<close>
  with a non-empty body, the body.
\<close>

record request =
  req_url :: string
  req_headers :: "(string \<times> string) list"
  req_method :: string
  req_data :: "string option"

text \<open>
  What \<^verbatim>\<open>urlopen\<close> and the reading of the reply come to: a reply with its status and
  its decoded body, or the message of the exception that reading or decoding it raised;
  an \<^verbatim>\<open>HTTPError\<close> with code, reason and its body decoded as JSON, if it decodes; a
  \<^verbatim>\<open>URLError\<close> with its reason; any other exception with its message.
\<close>

datatype urlopen_outcome =
  Replied nat "string + json"
  | RaisedHTTPError nat string "json option"
  | RaisedURLError string
  | RaisedOther string

text \<open>\<^verbatim>\<open>error_data['statusCode'] = code\<close>: only a dictionary takes a string key.\<close>

fun py_setitem :: "json \<Rightarrow> string \<Rightarrow> json \<Rightarrow> exn + json" where
  "py_setitem (JObj items) key v = Inr (JObj (dict_set items key v))"
| "py_setitem x key v = Inl TypeError"

text \<open>
  \<^verbatim>\<open>__make_http_call\<close>, lines 123 to 142: serialising the body, building the headers,
  the path with its query string, and the request.
\<close>

definition make_http_request ::
  "hmac_fun \<Rightarrow> dumps_fun \<Rightarrow> (nat \<Rightarrow> real) \<Rightarrow> client \<Rightarrow> string \<Rightarrow> string \<Rightarrow> bytes \<Rightarrow> string
     \<Rightarrow> string option \<Rightarrow> json option \<Rightarrow> nat \<Rightarrow> request \<times> nat" where
  "make_http_request hmac_sha512 json_dumps time_at self method apiKey privateKey path
       queryString data reads =
     (let data = map_option (json_dumps ('','', '':'')) data;
          (hdrs, reads') = build_headers hmac_sha512 time_at method apiKey privateKey path data reads;
          full_path = (case queryString of None \<Rightarrow> path | Some q \<Rightarrow> path @ ''?'' @ q);
          sent = (if method = ''POST'' \<or> method = ''PUT''
                  then (case data of None \<Rightarrow> None | Some d \<Rightarrow> if d \<noteq> [] then Some d else None)
                  else None)
      in (\<lparr>req_url = base_url self @ full_path, req_headers = hdrs, req_method = method,
           req_data = sent\<rparr>,
          reads'))"

text \<open>
  Lines 144 to 164: the reply and the three \<^verbatim>\<open>except\<close> clauses. In the first, decoding
  the error body and storing the status code are inside an inner \<^verbatim>\<open>try\<close> whose bare
  \<^verbatim>\<open>except\<close> returns the fallback object.
\<close>

definition handle_outcome :: "urlopen_outcome \<Rightarrow> exn + json" where
  "handle_outcome outcome =
     (case outcome of
        Replied code (Inr response_data) \<Rightarrow> Inr response_data
      | Replied code (Inl msg) \<Rightarrow> Inr (JObj [(''error'', JStr (''Unexpected error: '' @ msg))])
      | RaisedHTTPError code reason error_body \<Rightarrow>
          (case bind_exn (case error_body of None \<Rightarrow> Inl ValueError | Some v \<Rightarrow> Inr v)
                  (\<lambda>error_data. py_setitem error_data ''statusCode'' (JInt (int code))) of
             Inr error_data \<Rightarrow> Inr error_data
           | Inl e \<Rightarrow>
               Inr (JObj [(''error'', JStr (''HTTP '' @ str_nat code @ '': '' @ reason)),
                          (''statusCode'', JInt (int code))]))
      | RaisedURLError reason \<Rightarrow> Inr (JObj [(''error'', JStr (''Network error: '' @ reason))])
      | RaisedOther msg \<Rightarrow> Inr (JObj [(''error'', JStr (''Unexpected error: '' @ msg))]))"

definition make_http_call ::
  "hmac_fun \<Rightarrow> dumps_fun \<Rightarrow> (nat \<Rightarrow> real) \<Rightarrow> (request \<Rightarrow> urlopen_outcome) \<Rightarrow> client \<Rightarrow> string
     \<Rightarrow> string \<Rightarrow> bytes \<Rightarrow> string \<Rightarrow> string option \<Rightarrow> json option \<Rightarrow> nat \<Rightarrow> (exn + json) \<times> nat" where
  "make_http_call hmac_sha512 json_dumps time_at urlopen self method apiKey privateKey path
       queryString data reads =
     (let (http_request, reads') =
            make_http_request hmac_sha512 json_dumps time_at self method apiKey privateKey path
              queryString data reads
      in (handle_outcome (urlopen http_request), reads'))"

subsection \<open>The endpoints\<close>

definition get_ticker where
  "get_ticker hmac_sha512 json_dumps time_at urlopen self market_id reads =
     make_http_call hmac_sha512 json_dumps time_at urlopen self ''GET'' (api_key self)
       (private_key self) (''/v3/markets/'' @ market_id @ ''/ticker'') None None reads"

definition get_candles where
  "get_candles hmac_sha512 json_dumps time_at urlopen self market_id timeWindow limit reads =
     (let query_string = ''timeWindow='' @ timeWindow @ ''&limit='' @ str_int limit
      in make_http_call hmac_sha512 json_dumps time_at urlopen self ''GET'' (api_key self)
           (private_key self) (''/v3/markets/'' @ market_id @ ''/candles'') (Some query_string)
           None reads)"

definition get_account_balances where
  "get_account_balances hmac_sha512 json_dumps time_at urlopen self reads =
     make_http_call hmac_sha512 json_dumps time_at urlopen self ''GET'' (api_key self)
       (private_key self) ''/v3/accounts/me/balances'' (Some '''') None reads"

definition place_market_buy_order where
  "place_market_buy_order hmac_sha512 json_dumps time_at urlopen self market_id amount reads =
     (let payload = JObj [(''marketId'', JStr market_id), (''amount'', JStr amount),
                          (''type'', JStr ''Market''), (''side'', JStr ''Bid'')]
      in make_http_call hmac_sha512 json_dumps time_at urlopen self ''POST'' (api_key self)
           (private_key self) ''/v3/orders'' None (Some payload) reads)"

section \<open>The bot: class \<^verbatim>\<open>BTCAccumulationBot\<close>\<close>

text \<open>
  Each method is a function of what its calls to the client return. A call to the client
  is a value of \<open>exn + json\<close>: the decoded reply, or the exception that the call let
  through.
\<close>

subsection \<open>Indicators\<close>

text \<open>
  \<^verbatim>\<open>get_current_price\<close>. The \<^verbatim>\<open>except\<close> clause logs and raises again, so an exception
  of the body is the exception of the method.
\<close>

definition get_current_price :: "(string \<Rightarrow> real option) \<Rightarrow> exn + json \<Rightarrow> exn + real" where
  "get_current_price float_str ticker_call =
     bind_exn ticker_call (\<lambda>ticker.
     bind_exn (is_error_reply ticker) (\<lambda>is_error.
       if is_error then Inl (raise_api_error ''API Error'' ticker)
       else bind_exn (py_getitem_str ticker ''lastPrice'') (py_float float_str)))"

text \<open>A list comprehension whose element expression can raise stops at the first exception.\<close>

fun map_exn :: "('a \<Rightarrow> exn + 'b) \<Rightarrow> 'a list \<Rightarrow> exn + 'b list" where
  "map_exn f [] = Inr []"
| "map_exn f (x # xs) =
     bind_exn (f x) (\<lambda>y. bind_exn (map_exn f xs) (\<lambda>ys. Inr (y # ys)))"

text \<open>\<^verbatim>\<open>float(candle[4])\<close>, the closing price of one candle.\<close>

definition close_price :: "(string \<Rightarrow> real option) \<Rightarrow> json \<Rightarrow> exn + real" where
  "close_price float_str candle = bind_exn (py_getitem_int candle 4) (py_float float_str)"

text \<open>The slice \<^verbatim>\<open>xs[-n:]\<close> for \<open>n \<ge> 0\<close>, and \<^verbatim>\<open>np.mean\<close> of a list.\<close>

definition py_last_n :: "nat \<Rightarrow> 'a list \<Rightarrow> 'a list" where
  "py_last_n n xs = (if n = 0 then xs else drop (length xs - n) xs)"

definition np_mean :: "real list \<Rightarrow> real" where
  "np_mean xs = sum_list xs / of_nat (length xs)"

text \<open>
  The quotient of a Python float by a NumPy float: a zero divisor gives an infinity or a
  NaN with a warning, not an exception. These are not real numbers, and the model keeps
  them apart as \<open>NonFinite\<close>.
\<close>

datatype np_float = Finite real | NonFinite

definition np_divide :: "real \<Rightarrow> real \<Rightarrow> np_float" where
  "np_divide a b = (if b = 0 then NonFinite else Finite (a / b))"

text \<open>
  \<^verbatim>\<open>get_mayer_multiple\<close>: \<open>candles_call\<close> is what \<^verbatim>\<open>get_candles(market, '1d', 200)\<close>
  returned and \<open>ticker_call\<close> what the later \<^verbatim>\<open>get_ticker\<close> inside
  \<^verbatim>\<open>get_current_price\<close> returned. Here too the \<^verbatim>\<open>except\<close> clause raises again.
\<close>

definition get_mayer_multiple ::
  "(string \<Rightarrow> real option) \<Rightarrow> exn + json \<Rightarrow> exn + json \<Rightarrow> exn + np_float" where
  "get_mayer_multiple float_str candles_call ticker_call =
     bind_exn candles_call (\<lambda>candles.
     bind_exn (is_error_reply candles) (\<lambda>is_error.
       if is_error then Inl (raise_api_error ''Candles API Error'' candles)
       else if \<not> py_truthy candles then Inl (Exception ''No candle data received'')
       else
     bind_exn (py_len candles) (\<lambda>n.
       if n = 0 then Inl (Exception ''No candle data received'')
       else
     bind_exn (py_reversed candles) (\<lambda>chronological.
     bind_exn (map_exn (close_price float_str) chronological) (\<lambda>prices.
       if length prices < 50 then Inl (Exception ''Insufficient price data'')
       else
         (let ma_period = min 200 (length prices);
              ma_200 = np_mean (py_last_n ma_period prices)
          in bind_exn (get_current_price float_str ticker_call) (\<lambda>current_price.
               Inr (np_divide current_price ma_200))))))))"

text \<open>
  \<^verbatim>\<open>get_fear_greed_index\<close>. The reply of \<^verbatim>\<open>requests.get(url, timeout=10)\<close> is either an
  exception (\<^verbatim>\<open>Timeout\<close>, another \<^verbatim>\<open>RequestException\<close>, or anything else) or a response
  with its status and its body decoded as JSON, if it decodes. \<^verbatim>\<open>raise_for_status\<close> raises
  on a status from 400 to 599 and \<^verbatim>\<open>response.json()\<close> raises on a body that is not JSON;
  both exceptions are \<^verbatim>\<open>RequestException\<close>s.
\<close>

datatype requests_reply = RequestRaised exn | Response nat "json option"

definition get_fear_greed_index_try :: "(string \<Rightarrow> int option) \<Rightarrow> requests_reply \<Rightarrow> exn + int" where
  "get_fear_greed_index_try int_str reply =
     (case reply of
        RequestRaised e \<Rightarrow> Inl e
      | Response status decoded \<Rightarrow>
          if 400 \<le> status \<and> status < 600 then Inl RequestException
          else (case decoded of
                  None \<Rightarrow> Inl RequestException
                | Some data \<Rightarrow>
                    bind_exn (py_getitem_str data ''data'') (\<lambda>entries.
                    bind_exn (py_getitem_int entries 0) (\<lambda>entry.
                    bind_exn (py_getitem_str entry ''value'') (py_int int_str)))))"

text \<open>The four \<^verbatim>\<open>except\<close> clauses, in the order of the source.\<close>

definition get_fear_greed_index :: "(string \<Rightarrow> int option) \<Rightarrow> requests_reply \<Rightarrow> exn + int" where
  "get_fear_greed_index int_str reply =
     (case get_fear_greed_index_try int_str reply of
        Inr fear_greed \<Rightarrow> Inr fear_greed
      | Inl e \<Rightarrow>
          if e = Timeout then Inr 50
          else if e = RequestException then Inr 50
          else if e = KeyError \<or> e = ValueError \<or> e = IndexError then Inr 50
          else Inr 50)"

section \<open>Configuration\<close>

text \<open>Class \<^verbatim>\<open>Config\<close>: the two credentials and the three amounts.\<close>

record config =
  BTCMARKETS_API_KEY :: "string option"
  BTCMARKETS_PRIVATE_KEY :: "string option"
  BASE_WEEKLY_AMOUNT :: real
  MAX_WEEKLY_AMOUNT :: real
  MIN_WEEKLY_AMOUNT :: real

section \<open>Sizing policy: \<^verbatim>\<open>calculate_buy_amount\<close>\<close>

text \<open>
  A signal is the f-string of the matched branch: its constant text, the Mayer multiple
  it interpolates and, in the branches that print it, the Fear and Greed value.
\<close>

datatype signal = Signal (signal_text: string) (signal_mayer: real) (signal_fg: "int option")

text \<open>
  Lines 295 to 323: the \<^verbatim>\<open>if\<close>/\<^verbatim>\<open>elif\<close> chain, in the order of the source. The
  multiplier starts at 1.0 and the last branch leaves it there.
\<close>

definition select_multiplier :: "real \<Rightarrow> int \<Rightarrow> real \<times> signal" where
  "select_multiplier mayer fear_greed =
     (if mayer < 0.8 \<and> fear_greed < 25 then
        (4.0, Signal ''PERFECT STORM'' mayer (Some fear_greed))
      else if mayer < 0.8 \<and> fear_greed < 35 then
        (3.5, Signal ''EXTREME OVERSOLD + FEAR'' mayer (Some fear_greed))
      else if mayer < 0.8 then
        (3.0, Signal ''EXTREME OVERSOLD'' mayer None)
      else if mayer < 1.0 \<and> fear_greed < 30 then
        (2.5, Signal ''UNDERSOLD + FEAR'' mayer (Some fear_greed))
      else if mayer < 1.0 then
        (1.8, Signal ''UNDERSOLD'' mayer None)
      else if mayer < 1.2 \<and> fear_greed < 40 then
        (1.2, Signal ''FAIR VALUE + FEAR'' mayer (Some fear_greed))
      else if mayer > 2.4 then
        (0.0, Signal ''EXTREME BUBBLE - STOP buying'' mayer None)
      else if mayer > 1.6 then
        (0.2, Signal ''OVERBOUGHT'' mayer None)
      else
        (1.0, Signal ''FAIR VALUE'' mayer None))"

text \<open>
  Lines 294 and 325 to 332, for the values \<open>mayer\<close> and \<open>fear_greed\<close> that the two
  indicator calls returned: the product with the base amount, capped at the maximum and
  raised to the minimum, or to 0 when the multiplier is 0.
\<close>

definition calculate_buy_amount :: "config \<Rightarrow> real \<Rightarrow> int \<Rightarrow> real \<times> signal" where
  "calculate_buy_amount cfg mayer fear_greed =
     (let base_amount = BASE_WEEKLY_AMOUNT cfg;
          (multiplier, signal) = select_multiplier mayer fear_greed;
          final_amount = base_amount * multiplier;
          final_amount = py_max (py_min final_amount (MAX_WEEKLY_AMOUNT cfg))
                                (if multiplier > 0 then MIN_WEEKLY_AMOUNT cfg else 0)
      in (final_amount, signal))"

subsection \<open>Balances\<close>

text \<open>
  The dictionary \<^verbatim>\<open>balance_info\<close> is a map from keys to amounts. One pass of the loop
  of \<^verbatim>\<open>get_account_balance\<close> (lines 369 to 387): an item that is not a dictionary is
  skipped; \<^verbatim>\<open>available\<close> is read before \<^verbatim>\<open>balance\<close>, and \<^verbatim>\<open>'0'\<close> stands in when both
  are absent; a \<^verbatim>\<open>ValueError\<close> or \<^verbatim>\<open>TypeError\<close> of the conversion or of the store is
  caught and the asset is stored with 0.0, a store that can itself raise.
\<close>

type_synonym balance_info = "json \<rightharpoonup> real"

definition balance_step ::
  "(string \<Rightarrow> real option) \<Rightarrow> balance_info \<Rightarrow> json \<Rightarrow> exn + balance_info" where
  "balance_step float_str info balance =
     (case balance of
        JObj items \<Rightarrow>
          (let asset_name = dict_get items ''assetName'' JNull;
               available_balance =
                 dict_get items ''available'' (dict_get items ''balance'' (JStr ''0''))
           in if py_truthy asset_name \<and> available_balance \<noteq> JNull then
                (case bind_exn (py_float float_str available_balance) (\<lambda>amount.
                      bind_exn (dict_key asset_name) (\<lambda>k. Inr (info(k \<mapsto> amount)))) of
                   Inr info' \<Rightarrow> Inr info'
                 | Inl e \<Rightarrow>
                     if e = ValueError \<or> e = TypeError
                     then bind_exn (dict_key asset_name) (\<lambda>k. Inr (info(k \<mapsto> 0)))
                     else Inl e)
              else Inr info)
      | _ \<Rightarrow> Inr info)"

fun balance_loop ::
  "(string \<Rightarrow> real option) \<Rightarrow> balance_info \<Rightarrow> json list \<Rightarrow> exn + balance_info" where
  "balance_loop float_str info [] = Inr info"
| "balance_loop float_str info (balance # rest) =
     bind_exn (balance_step float_str info balance)
       (\<lambda>info'. balance_loop float_str info' rest)"

text \<open>The body of the \<^verbatim>\<open>try\<close> of \<^verbatim>\<open>get_account_balance\<close> (lines 341 to 391).\<close>

definition get_account_balance_try ::
  "(string \<Rightarrow> real option) \<Rightarrow> exn + json \<Rightarrow> exn + balance_info" where
  "get_account_balance_try float_str balances_call =
     bind_exn balances_call (\<lambda>balances.
     bind_exn (is_error_reply balances) (\<lambda>is_error.
       if is_error then Inl (raise_api_error ''Balance API Error'' balances)
       else (case balances of
               JArr entries \<Rightarrow> balance_loop float_str Map.empty entries
             | _ \<Rightarrow> Inr Map.empty)))"

text \<open>\<^verbatim>\<open>get_account_balance\<close>: any exception of the body is logged and answered with \<^verbatim>\<open>{}\<close>.\<close>

definition get_account_balance ::
  "(string \<Rightarrow> real option) \<Rightarrow> exn + json \<Rightarrow> exn + balance_info" where
  "get_account_balance float_str balances_call =
     (case get_account_balance_try float_str balances_call of
        Inr balance_info \<Rightarrow> Inr balance_info
      | Inl e \<Rightarrow> Inr Map.empty)"

subsection \<open>Order execution\<close>

text \<open>
  The result dictionary of \<^verbatim>\<open>execute_buy_order\<close>. A failure carries its reason:
  \<^verbatim>\<open>'Amount below minimum'\<close>; \<^verbatim>\<open>'Insufficient balance: $...'\<close> with the balance it prints;
  the \<^verbatim>\<open>error\<close> value of the order reply; \<^verbatim>\<open>'HTTP ...'\<close> with the \<^verbatim>\<open>statusCode\<close> value of
  the order reply; or the text of a caught exception. A success carries the six further
  entries of the source.
\<close>

datatype reason =
  AmountBelowMinimum | InsufficientBalance real | OrderError json | OrderHTTP json
  | Caught exn

datatype order_result =
  Failure reason
  | Success (btc_amount: real) (aud_amount: real) (order_id: json) (order_status: json)
      (price: real) (order_details: json)

text \<open>
  The body of the \<^verbatim>\<open>try\<close> (lines 405 to 452). \<open>order_call q\<close> is what
  \<^verbatim>\<open>place_market_buy_order\<close> returns for the quantity \<open>q\<close>; the rounding of the quantity
  to eight digits is not modelled. Both operands of the division are Python floats, so a
  zero price raises.
\<close>

definition execute_buy_order_try ::
  "(string \<Rightarrow> real option) \<Rightarrow> real \<Rightarrow> exn + json \<Rightarrow> exn + json \<Rightarrow> (real \<Rightarrow> exn + json)
     \<Rightarrow> exn + order_result" where
  "execute_buy_order_try float_str amount_aud balances_call ticker_call order_call =
     bind_exn (get_account_balance float_str balances_call) (\<lambda>balances.
       (let aud_balance = (case balances (JStr ''AUD'') of None \<Rightarrow> 0 | Some v \<Rightarrow> v)
        in if aud_balance < amount_aud then Inr (Failure (InsufficientBalance aud_balance))
           else
     bind_exn (get_current_price float_str ticker_call) (\<lambda>current_price.
       if current_price = 0 then Inl ZeroDivisionError
       else
         (let btc_amount = amount_aud / current_price
          in
     bind_exn (order_call btc_amount) (\<lambda>order_result.
     bind_exn (is_error_reply order_result) (\<lambda>is_error.
       (case order_result of
          JObj items \<Rightarrow>
            if is_error then
              Inr (Failure (case map_of items ''error'' of
                              Some error_msg \<Rightarrow> OrderError error_msg
                            | None \<Rightarrow> OrderHTTP (dict_get items ''statusCode'' JNull)))
            else
              Inr (Success btc_amount amount_aud (dict_get items ''orderId'' (JStr ''N/A''))
                     (dict_get items ''status'' (JStr ''Unknown'')) current_price order_result)
        | _ \<Rightarrow> Inl AttributeError)))))))"

text \<open>
  \<^verbatim>\<open>execute_buy_order\<close>: the minimum check before the \<^verbatim>\<open>try\<close>, and the \<^verbatim>\<open>except\<close>
  clause that turns any exception of the body into a failure.
\<close>

definition execute_buy_order ::
  "config \<Rightarrow> (string \<Rightarrow> real option) \<Rightarrow> real \<Rightarrow> exn + json \<Rightarrow> exn + json
     \<Rightarrow> (real \<Rightarrow> exn + json) \<Rightarrow> order_result" where
  "execute_buy_order cfg float_str amount_aud balances_call ticker_call order_call =
     (if amount_aud < MIN_WEEKLY_AMOUNT cfg then Failure AmountBelowMinimum
      else (case execute_buy_order_try float_str amount_aud balances_call ticker_call
                   order_call of
              Inr result \<Rightarrow> result
            | Inl e \<Rightarrow> Failure (Caught e)))"

text \<open>
  The strategy step of \<^verbatim>\<open>run\<close> (lines 541 to 564): an order is attempted only for a
  positive amount; \<open>None\<close> is the branch that buys nothing.
\<close>

definition run_strategy ::
  "config \<Rightarrow> (string \<Rightarrow> real option) \<Rightarrow> real \<Rightarrow> exn + json \<Rightarrow> exn + json
     \<Rightarrow> (real \<Rightarrow> exn + json) \<Rightarrow> order_result option" where
  "run_strategy cfg float_str buy_amount balances_call ticker_call order_call =
     (if buy_amount > 0
      then Some (execute_buy_order cfg float_str buy_amount balances_call ticker_call order_call)
      else None)"

subsection \<open>The rule table of the specification\<close>

text \<open>
  The specification gives the policy as an ordered table of condition, multiplier and
  label, of which the first matching row wins. The table is written out row by row and
  searched from the top.
\<close>

datatype label =
  perfect_storm | extreme_oversold_fear | extreme_oversold | undersold_fear | undersold
  | fair_value_fear | extreme_bubble | overbought | fair_value

type_synonym rule = "(real \<Rightarrow> int \<Rightarrow> bool) \<times> real \<times> label"

definition rule_table :: "rule list" where
  "rule_table =
     [(\<lambda>R S. R < 0.8 \<and> S < 25, 4.0, perfect_storm),
      (\<lambda>R S. R < 0.8 \<and> S < 35, 3.5, extreme_oversold_fear),
      (\<lambda>R S. R < 0.8, 3.0, extreme_oversold),
      (\<lambda>R S. R < 1.0 \<and> S < 30, 2.5, undersold_fear),
      (\<lambda>R S. R < 1.0, 1.8, undersold),
      (\<lambda>R S. R < 1.2 \<and> S < 40, 1.2, fair_value_fear),
      (\<lambda>R S. R > 2.4, 0.0, extreme_bubble),
      (\<lambda>R S. R > 1.6, 0.2, overbought),
      (\<lambda>R S. True, 1.0, fair_value)]"

fun first_match :: "rule list \<Rightarrow> real \<Rightarrow> int \<Rightarrow> (real \<times> label) option" where
  "first_match [] R S = None"
| "first_match ((cond, m, l) # rules) R S =
     (if cond R S then Some (m, l) else first_match rules R S)"

text \<open>The text that the source prints for each label of the table.\<close>

fun label_text :: "label \<Rightarrow> string" where
  "label_text perfect_storm = ''PERFECT STORM''"
| "label_text extreme_oversold_fear = ''EXTREME OVERSOLD + FEAR''"
| "label_text extreme_oversold = ''EXTREME OVERSOLD''"
| "label_text undersold_fear = ''UNDERSOLD + FEAR''"
| "label_text undersold = ''UNDERSOLD''"
| "label_text fair_value_fear = ''FAIR VALUE + FEAR''"
| "label_text extreme_bubble = ''EXTREME BUBBLE - STOP buying''"
| "label_text overbought = ''OVERBOUGHT''"
| "label_text fair_value = ''FAIR VALUE''"

text \<open>Clamping a value into a band, as the specification words it.\<close>

definition clamp :: "real \<Rightarrow> real \<Rightarrow> real \<Rightarrow> real" where
  "clamp lo hi x = (if x < lo then lo else if hi < x then hi else x)"

text \<open>
  The configuration of the specification's worked examples: base 500, minimum 100,
  maximum 2000.
\<close>

definition example_config :: config where
  "example_config =
     \<lparr>BTCMARKETS_API_KEY = Some ''key'', BTCMARKETS_PRIVATE_KEY = Some ''YWJj'',
      BASE_WEEKLY_AMOUNT = 500, MAX_WEEKLY_AMOUNT = 2000, MIN_WEEKLY_AMOUNT = 100\<rparr>"

text \<open>
  The signature of the specification: the canonical message is method, path and
  timestamp with the serialised body, if there is one, appended; the signature is the
  Base64 text of its HMAC-SHA512 digest under the decoded secret.
\<close>

definition canonical_message :: "string \<Rightarrow> string \<Rightarrow> string \<Rightarrow> string option \<Rightarrow> string" where
  "canonical_message method path timestamp body =
     method @ path @ timestamp @ (case body of None \<Rightarrow> [] | Some b \<Rightarrow> b)"

definition spec_signature :: "hmac_fun \<Rightarrow> bytes \<Rightarrow> string \<Rightarrow> string" where
  "spec_signature hmac_sha512 secret message = b64encode (hmac_sha512 secret message)"

text \<open>
  A candle is a tuple, and a balance entry as the API documents it is an object whose
  asset name and amount, where present, are strings.
\<close>

fun is_tuple :: "json \<Rightarrow> bool" where
  "is_tuple (JArr cells) = True"
| "is_tuple x = False"



text \<open>
  The price ratio of the specification, on the closes in the order of the feed, newest
  first: the current price over the unweighted mean of the \<open>min(200, count)\<close> most
  recent closes, which are the first ones of the feed.
\<close>

definition recent_mean :: "real list \<Rightarrow> real" where
  "recent_mean closes_newest_first =
     sum_list (take (min 200 (length closes_newest_first)) closes_newest_first)
       / of_nat (min 200 (length closes_newest_first))"

subsection \<open>Instances of the parameters, for the examples\<close>

text \<open>
  The examples need a reading of number strings. \<open>digits_int_str\<close> reads a non-empty
  string of decimal digits, and \<open>decimal_float_str\<close> reads digits with an optional
  fraction after a point; both refuse everything else. On the strings they accept they
  agree with \<^verbatim>\<open>int\<close> and \<^verbatim>\<open>float\<close> of Python, which accept more (a sign, white space,
  an exponent); the examples use no such string.
\<close>

definition digit_value :: "char \<Rightarrow> nat option" where
  "digit_value c = index_of c ''0123456789''"

fun digits_value :: "nat \<Rightarrow> string \<Rightarrow> nat option" where
  "digits_value acc [] = Some acc"
| "digits_value acc (c # cs) =
     (case digit_value c of None \<Rightarrow> None | Some d \<Rightarrow> digits_value (10 * acc + d) cs)"

definition digits_int_str :: "string \<Rightarrow> int option" where
  "digits_int_str s = (if s = [] then None else map_option int (digits_value 0 s))"

definition decimal_float_str :: "string \<Rightarrow> real option" where
  "decimal_float_str s =
     (let whole = takeWhile (\<lambda>c. c \<noteq> CHR ''.'') s;
          rest = dropWhile (\<lambda>c. c \<noteq> CHR ''.'') s
      in if whole = [] then None
         else (case digits_value 0 whole of
                 None \<Rightarrow> None
               | Some w \<Rightarrow>
                   if rest = [] then Some (of_nat w)
                   else if tl rest = [] then None
                   else (case digits_value 0 (tl rest) of
                           None \<Rightarrow> None
                         | Some f \<Rightarrow> Some (of_nat w + of_nat f / 10 ^ length (tl rest)))))"

text \<open>A sentiment payload whose value is 150, and replies of the trading API.\<close>

definition payload_150 :: json where
  "payload_150 = JObj [(''data'', JArr [JObj [(''value'', JStr ''150'')]])]"

definition error_reply :: json where
  "error_reply = JObj [(''error'', JStr ''Network error: timed out'')]"

definition ticker_reply :: json where
  "ticker_reply = JObj [(''marketId'', JStr ''BTC-AUD''), (''lastPrice'', JStr ''100000'')]"

definition accepting_order_call :: "real \<Rightarrow> exn + json" where
  "accepting_order_call quantity =
     Inr (JObj [(''orderId'', JStr ''7''), (''status'', JStr ''Accepted'')])"



definition candle :: "string \<Rightarrow> json" where
  "candle closing =
     JArr [JStr ''2024-01-01T00:00:00.000000Z'', JStr ''100'', JStr ''300'', JStr ''90'',
           JStr closing, JStr ''12.5'']"

definition feed_201 :: "json list" where
  "feed_201 = candle ''300'' # replicate 200 (candle ''100'')"

definition feed_49 :: "json list" where
  "feed_49 = replicate 49 (candle ''100'')"

definition ticker_202 :: json where
  "ticker_202 = JObj [(''marketId'', JStr ''BTC-AUD''), (''lastPrice'', JStr ''202'')]"

section \<open>Properties of the sizing policy\<close>

lemma amount_unfold:
  "fst (calculate_buy_amount cfg R S) =
     py_max (py_min (BASE_WEEKLY_AMOUNT cfg * fst (select_multiplier R S)) (MAX_WEEKLY_AMOUNT cfg))
            (if fst (select_multiplier R S) > 0 then MIN_WEEKLY_AMOUNT cfg else 0)"
  by (simp add: calculate_buy_amount_def Let_def split: prod.splits)

lemma signal_unfold: "snd (calculate_buy_amount cfg R S) = snd (select_multiplier R S)"
  by (simp add: calculate_buy_amount_def Let_def split: prod.splits)

lemma py_max_min_clamp: "lo \<le> hi \<Longrightarrow> py_max (py_min x hi) lo = clamp lo hi x"
  by (auto simp: py_max_def py_min_def clamp_def)

lemma clamp_bounds: "lo \<le> hi \<Longrightarrow> lo \<le> clamp lo hi x \<and> clamp lo hi x \<le> hi"
  by (auto simp: clamp_def)

lemma multiplier_sign:
  "fst (select_multiplier R S) = 0 \<or> 0 < fst (select_multiplier R S)"
  by (simp add: select_multiplier_def)

lemma zero_multiplier_amount:
  "fst (select_multiplier R S) = 0 \<Longrightarrow> fst (calculate_buy_amount cfg R S) = 0"
  by (simp add: amount_unfold py_max_def py_min_def)

lemma example_amounts:
  "fst (calculate_buy_amount example_config 0.5 10) = 2000"
  "fst (calculate_buy_amount example_config 1.1 50) = 500"
  "fst (calculate_buy_amount example_config 2.5 S) = 0"
  "fst (calculate_buy_amount example_config 1.7 S) = 100"
  by (simp_all add: example_config_def calculate_buy_amount_def select_multiplier_def
        py_max_def py_min_def)

text \<open>
  Claim C1. The branch that \<^verbatim>\<open>calculate_buy_amount\<close> takes is the first row of the
  specification's ordered table whose condition holds: for every ratio and sentiment the
  multiplier and the signal text of the code are those of the first matching row, and the
  signal that is returned is the one of that branch. At ratio 0.75 and sentiment 20 the
  third row (extreme oversold, 3.0) matches as well, and the result is the first row:
  multiplier 4.0, perfect storm.
\<close>

theorem calculate_buy_amount_first_match:
  "map_option (\<lambda>(m, l). (m, label_text l)) (first_match rule_table R S) =
     Some (fst (select_multiplier R S), signal_text (snd (select_multiplier R S)))
   \<and> snd (calculate_buy_amount cfg R S) = snd (select_multiplier R S)
   \<and> first_match rule_table 0.75 20 = Some (4.0, perfect_storm)
   \<and> first_match (drop 2 rule_table) 0.75 20 = Some (3.0, extreme_oversold)
   \<and> select_multiplier 0.75 20 = (4.0, Signal ''PERFECT STORM'' 0.75 (Some 20))
   \<and> snd (calculate_buy_amount cfg 0.75 20) = Signal ''PERFECT STORM'' 0.75 (Some 20)"
proof -
  have table: "map_option (\<lambda>(m, l). (m, label_text l)) (first_match rule_table R S) =
      Some (fst (select_multiplier R S), signal_text (snd (select_multiplier R S)))"
    by (simp add: rule_table_def select_multiplier_def)
  have first: "first_match rule_table 0.75 20 = Some (4.0, perfect_storm)"
    by (simp add: rule_table_def)
  have third: "first_match (drop 2 rule_table) 0.75 20 = Some (3.0, extreme_oversold)"
    by (simp add: rule_table_def)
  have code: "select_multiplier 0.75 20 = (4.0, Signal ''PERFECT STORM'' 0.75 (Some 20))"
    by (simp add: select_multiplier_def)
  show ?thesis
    using table first third code by (simp add: signal_unfold)
qed

text \<open>
  Claim C2. With \<open>0 \<le> min \<le> max\<close> configured: the matched multiplier is 0 or
  positive; when it is 0 the amount is exactly 0, whatever the minimum; when it is
  positive the amount is base times multiplier clamped into the band from min to max, so
  it lies in the band. With base 500, min 100 and max 2000 the amounts at (0.5, 10),
  (1.1, 50), (2.5, any) and (1.7, any) are 2000, 500, 0 and 100.
\<close>

theorem calculate_buy_amount_clamped:
  assumes "0 \<le> MIN_WEEKLY_AMOUNT cfg"
    and "MIN_WEEKLY_AMOUNT cfg \<le> MAX_WEEKLY_AMOUNT cfg"
  shows "(fst (select_multiplier R S) = 0 \<or> 0 < fst (select_multiplier R S))
    \<and> (fst (select_multiplier R S) = 0 \<longrightarrow> fst (calculate_buy_amount cfg R S) = 0)
    \<and> (0 < fst (select_multiplier R S) \<longrightarrow>
          fst (calculate_buy_amount cfg R S) =
            clamp (MIN_WEEKLY_AMOUNT cfg) (MAX_WEEKLY_AMOUNT cfg)
              (BASE_WEEKLY_AMOUNT cfg * fst (select_multiplier R S))
          \<and> MIN_WEEKLY_AMOUNT cfg \<le> fst (calculate_buy_amount cfg R S)
          \<and> fst (calculate_buy_amount cfg R S) \<le> MAX_WEEKLY_AMOUNT cfg)
    \<and> fst (calculate_buy_amount example_config 0.5 10) = 2000
    \<and> fst (calculate_buy_amount example_config 1.1 50) = 500
    \<and> (\<forall>S'. fst (calculate_buy_amount example_config 2.5 S') = 0)
    \<and> (\<forall>S'. fst (calculate_buy_amount example_config 1.7 S') = 100)"
proof -
  have pos: "fst (calculate_buy_amount cfg R S) =
      clamp (MIN_WEEKLY_AMOUNT cfg) (MAX_WEEKLY_AMOUNT cfg)
        (BASE_WEEKLY_AMOUNT cfg * fst (select_multiplier R S))"
    if "0 < fst (select_multiplier R S)"
    using that assms(2) by (simp add: amount_unfold py_max_min_clamp)
  show ?thesis
    using multiplier_sign [of R S] zero_multiplier_amount [of R S cfg] pos
      clamp_bounds [OF assms(2)] example_amounts
    by simp
qed

theorem calculate_buy_amount_clamped_witness:
  "0 \<le> MIN_WEEKLY_AMOUNT example_config
   \<and> MIN_WEEKLY_AMOUNT example_config \<le> MAX_WEEKLY_AMOUNT example_config
   \<and> fst (select_multiplier 2.5 50) = 0
   \<and> fst (calculate_buy_amount example_config 2.5 50) = 0
   \<and> 0 < fst (select_multiplier 0.9 50)
   \<and> fst (calculate_buy_amount example_config 0.9 50) = clamp 100 2000 (500 * 1.8)
   \<and> fst (calculate_buy_amount example_config 0.9 50) = 900"
proof -
  have lo: "0 \<le> MIN_WEEKLY_AMOUNT example_config"
    by (simp add: example_config_def)
  have band: "MIN_WEEKLY_AMOUNT example_config \<le> MAX_WEEKLY_AMOUNT example_config"
    by (simp add: example_config_def)
  have zero: "fst (select_multiplier 2.5 50) = 0"
    by (simp add: select_multiplier_def)
  have high: "fst (select_multiplier 0.9 50) = 1.8"
    by (simp add: select_multiplier_def)
  have cfg: "MIN_WEEKLY_AMOUNT example_config = 100" "MAX_WEEKLY_AMOUNT example_config = 2000"
    "BASE_WEEKLY_AMOUNT example_config = 500"
    by (simp_all add: example_config_def)
  show ?thesis
    using calculate_buy_amount_clamped [OF lo band, of "2.5" 50]
      calculate_buy_amount_clamped [OF lo band, of "0.9" 50] zero high cfg
    by (simp add: clamp_def)
qed

section \<open>Properties of the sentiment fetch\<close>

lemma fear_greed_handlers:
  "get_fear_greed_index int_str reply =
     (case get_fear_greed_index_try int_str reply of Inl e \<Rightarrow> Inr 50 | Inr v \<Rightarrow> Inr v)"
  by (simp add: get_fear_greed_index_def split: sum.splits)

lemma digits_150: "digits_int_str ''150'' = Some 150"
  by (simp add: digits_int_str_def digit_value_def)

lemma digits_25: "digits_int_str ''25'' = Some 25"
  by (simp add: digits_int_str_def digit_value_def)

lemma digits_refuses: "digits_int_str ''n/a'' = None"
  by (simp add: digits_int_str_def digit_value_def)

text \<open>
  Claim C6, as stated, fails: a reply whose \<^verbatim>\<open>value\<close> is the string \<^verbatim>\<open>150\<close> is a
  successful fetch, and the method returns 150, which is not in the range from 0 to 100.
\<close>

theorem get_fear_greed_index_range_counterexample:
  "get_fear_greed_index digits_int_str (Response 200 (Some payload_150)) = Inr 150
   \<and> \<not> ((0::int) \<le> 150 \<and> (150::int) \<le> 100)"
  by (simp add: fear_greed_handlers get_fear_greed_index_try_def payload_150_def bind_exn_def
        list_index_def digits_150)

text \<open>
  What the method returns, for every reply: the integer read from the \<^verbatim>\<open>value\<close> entry of
  the first element of the \<^verbatim>\<open>data\<close> list of the payload, when the request returned
  with a status outside 400 to 599, the payload has that shape and the entry converts; 50
  in every other case.
\<close>

lemma fear_greed_result:
  "get_fear_greed_index int_str reply =
     Inr (case reply of
            RequestRaised e \<Rightarrow> 50
          | Response status decoded \<Rightarrow>
              if 400 \<le> status \<and> status < 600 then 50
              else (case decoded of
                      Some (JObj items) \<Rightarrow>
                        (case map_of items ''data'' of
                           Some (JArr (JObj entry # others)) \<Rightarrow>
                             (case map_of entry ''value'' of
                                Some v \<Rightarrow> (case py_int int_str v of Inr n \<Rightarrow> n | Inl e \<Rightarrow> 50)
                              | None \<Rightarrow> 50)
                         | _ \<Rightarrow> 50)
                    | _ \<Rightarrow> 50))"
proof (cases reply)
  case (RequestRaised e)
  then show ?thesis
    by (simp add: fear_greed_handlers get_fear_greed_index_try_def)
next
  case (Response status decoded)
  show ?thesis
  proof (cases "400 \<le> status \<and> status < 600")
    case True
    with Response show ?thesis
      by (simp add: fear_greed_handlers get_fear_greed_index_try_def)
  next
    case False
    show ?thesis
    proof (cases decoded)
      case None
      with Response False show ?thesis
        by (simp add: fear_greed_handlers get_fear_greed_index_try_def)
    next
      case (Some data)
      have "(case get_fear_greed_index_try int_str (Response status (Some data)) of
               Inl e \<Rightarrow> 50 | Inr n \<Rightarrow> n) =
            (case data of
               JObj items \<Rightarrow>
                 (case map_of items ''data'' of
                    Some (JArr (JObj entry # others)) \<Rightarrow>
                      (case map_of entry ''value'' of
                         Some v \<Rightarrow> (case py_int int_str v of Inr n \<Rightarrow> n | Inl e \<Rightarrow> 50)
                       | None \<Rightarrow> 50)
                  | _ \<Rightarrow> 50)
             | _ \<Rightarrow> 50)"
        using False
        by (auto simp add: get_fear_greed_index_try_def bind_exn_def list_index_def
              split: json.splits option.splits list.splits sum.splits)
      with Response False Some show ?thesis
        by (auto simp add: fear_greed_handlers split: sum.splits)
    qed
  qed
qed

text \<open>
  Claim C6, amended. The sentiment fetch never raises. When the request returns with a
  status outside 400 to 599 and a JSON object whose \<^verbatim>\<open>data\<close> entry is a list that
  begins with an object whose \<^verbatim>\<open>value\<close> entry converts to an integer, it returns that
  integer, whatever it is: the code has no range check. In every other case it returns
  exactly 50: an exception of the request (time-out, network error or any other), an
  error status, a body that is not JSON, a payload without the expected entries, a value
  that does not read as an integer. A value of 25 comes back as 25, and an integer value
  \<open>i\<close> as \<open>i\<close>.
\<close>

theorem get_fear_greed_index_neutral_on_failure:
  "get_fear_greed_index int_str reply =
     Inr (case reply of
            RequestRaised e \<Rightarrow> 50
          | Response status decoded \<Rightarrow>
              if 400 \<le> status \<and> status < 600 then 50
              else (case decoded of
                      Some (JObj items) \<Rightarrow>
                        (case map_of items ''data'' of
                           Some (JArr (JObj entry # others)) \<Rightarrow>
                             (case map_of entry ''value'' of
                                Some v \<Rightarrow> (case py_int int_str v of Inr n \<Rightarrow> n | Inl e \<Rightarrow> 50)
                              | None \<Rightarrow> 50)
                         | _ \<Rightarrow> 50)
                    | _ \<Rightarrow> 50))
   \<and> (\<exists>v. get_fear_greed_index int_str reply = Inr v)
   \<and> get_fear_greed_index int_str
        (Response 200 (Some (JObj [(''data'', JArr (JObj [(''value'', JInt i)] # rest))]))) =
       Inr i
   \<and> get_fear_greed_index digits_int_str
        (Response 200 (Some (JObj [(''name'', JStr ''Fear and Greed Index''),
           (''data'', JArr [JObj [(''value'', JStr ''25''),
                                  (''value_classification'', JStr ''Extreme Fear'')]])]))) =
       Inr 25
   \<and> get_fear_greed_index int_str (RequestRaised raised) = Inr 50
   \<and> get_fear_greed_index int_str (Response 503 body) = Inr 50
   \<and> get_fear_greed_index int_str (Response code None) = Inr 50
   \<and> get_fear_greed_index int_str (Response 200 (Some (JObj []))) = Inr 50
   \<and> get_fear_greed_index int_str (Response 200 (Some (JObj [(''data'', JArr [])]))) = Inr 50
   \<and> get_fear_greed_index digits_int_str
        (Response 200 (Some (JObj [(''data'', JArr [JObj [(''value'', JStr ''n/a'')]])]))) = Inr 50"
proof -
  have total: "\<exists>v. get_fear_greed_index int_str reply = Inr v"
    by (cases "get_fear_greed_index_try int_str reply") (simp_all add: fear_greed_handlers)
  have any_integer: "get_fear_greed_index int_str
      (Response 200 (Some (JObj [(''data'', JArr (JObj [(''value'', JInt i)] # rest))]))) =
      Inr i"
    by (simp add: fear_greed_result)
  have extreme_fear: "get_fear_greed_index digits_int_str
      (Response 200 (Some (JObj [(''name'', JStr ''Fear and Greed Index''),
         (''data'', JArr [JObj [(''value'', JStr ''25''),
                                (''value_classification'', JStr ''Extreme Fear'')]])]))) =
      Inr 25"
    by (simp add: fear_greed_result digits_25)
  have request_raised: "get_fear_greed_index int_str (RequestRaised raised) = Inr 50"
    by (simp add: fear_greed_handlers get_fear_greed_index_try_def)
  have status_error: "get_fear_greed_index int_str (Response 503 body) = Inr 50"
    by (simp add: fear_greed_handlers get_fear_greed_index_try_def)
  have not_json: "get_fear_greed_index int_str (Response code None) = Inr 50"
    by (simp add: fear_greed_handlers get_fear_greed_index_try_def)
  have no_key: "get_fear_greed_index int_str (Response 200 (Some (JObj []))) = Inr 50"
    by (simp add: fear_greed_handlers get_fear_greed_index_try_def bind_exn_def)
  have no_entry:
    "get_fear_greed_index int_str (Response 200 (Some (JObj [(''data'', JArr [])]))) = Inr 50"
    by (simp add: fear_greed_handlers get_fear_greed_index_try_def bind_exn_def list_index_def)
  have no_number: "get_fear_greed_index digits_int_str
      (Response 200 (Some (JObj [(''data'', JArr [JObj [(''value'', JStr ''n/a'')]])]))) = Inr 50"
    by (simp add: fear_greed_handlers get_fear_greed_index_try_def bind_exn_def list_index_def
          digits_refuses)
  show ?thesis
    by (intro conjI)
      (rule fear_greed_result total any_integer extreme_fear request_raised status_error not_json
         no_key no_entry no_number)+
qed

section \<open>Properties of the balance fetch and of order execution\<close>

lemma balance_handlers:
  "get_account_balance fs call =
     (case get_account_balance_try fs call of Inl e \<Rightarrow> Inr Map.empty | Inr m \<Rightarrow> Inr m)"
  by (simp add: get_account_balance_def split: sum.splits)

lemma balance_total: "\<exists>m. get_account_balance fs call = Inr m"
  by (cases "get_account_balance_try fs call") (simp_all add: balance_handlers)

lemma balance_call_raised: "get_account_balance fs (Inl e) = Inr Map.empty"
  by (simp add: balance_handlers get_account_balance_try_def bind_exn_def)

lemma balance_not_a_list:
  "get_account_balance fs (Inr JNull) = Inr Map.empty"
  "get_account_balance fs (Inr (JBool b)) = Inr Map.empty"
  "get_account_balance fs (Inr (JInt i)) = Inr Map.empty"
  "get_account_balance fs (Inr (JFloat r)) = Inr Map.empty"
  "get_account_balance fs (Inr (JStr s)) = Inr Map.empty"
  "get_account_balance fs (Inr (JObj items)) = Inr Map.empty"
  by (simp_all add: balance_handlers get_account_balance_try_def bind_exn_def
        is_error_reply_def split: sum.splits)

lemma balance_error_shaped:
  "map_of items ''error'' \<noteq> None \<or> map_of items ''statusCode'' \<noteq> None \<Longrightarrow>
   get_account_balance_try fs (Inr (JObj items)) = Inl (Exception ''Balance API Error'')"
  by (auto simp add: get_account_balance_try_def bind_exn_def is_error_reply_def)

lemma empty_balance_is_insufficient:
  "get_account_balance fs call = Inr Map.empty \<Longrightarrow> 0 < amount \<Longrightarrow>
   \<not> amount < MIN_WEEKLY_AMOUNT cfg \<Longrightarrow>
   execute_buy_order cfg fs amount call t oc = Failure (InsufficientBalance 0)"
  by (simp add: execute_buy_order_def execute_buy_order_try_def bind_exn_def)

lemma amount_zero_or_minimum:
  "0 < MIN_WEEKLY_AMOUNT cfg \<Longrightarrow> MIN_WEEKLY_AMOUNT cfg \<le> MAX_WEEKLY_AMOUNT cfg \<Longrightarrow>
   fst (calculate_buy_amount cfg R S) = 0
   \<or> MIN_WEEKLY_AMOUNT cfg \<le> fst (calculate_buy_amount cfg R S)"
  using multiplier_sign [of R S]
  by (auto simp add: amount_unfold py_max_def py_min_def)

lemma order_body_reasons:
  "execute_buy_order_try fs a b t oc \<noteq> Inr (Failure AmountBelowMinimum)"
  by (auto simp add: execute_buy_order_try_def bind_exn_def Let_def
        split: sum.splits json.splits if_splits option.splits)

text \<open>
  Claim C9. \<^verbatim>\<open>get_account_balance\<close> never raises: it always returns a mapping, and the
  mapping is empty when the call to the client raised, when the reply is error-shaped
  (the body raises and the handler answers), when the reply is anything but a list, and
  whenever the body raised. After such a fetch the AUD balance reads 0, so an order for a
  positive amount that passed the minimum check is rejected with the reason
  \<^verbatim>\<open>Insufficient balance: $0.00\<close>, as a returned failure, in \<^verbatim>\<open>execute_buy_order\<close> and in
  the strategy step of \<^verbatim>\<open>run\<close>, which calls it for positive amounts only.
\<close>

theorem get_account_balance_failure_rejects_order:
  "(\<exists>m. get_account_balance fs call = Inr m)
   \<and> get_account_balance fs call =
       (case get_account_balance_try fs call of Inl e \<Rightarrow> Inr Map.empty | Inr m \<Rightarrow> Inr m)
   \<and> get_account_balance fs (Inl e) = Inr Map.empty
   \<and> (map_of items ''error'' \<noteq> None \<or> map_of items ''statusCode'' \<noteq> None \<longrightarrow>
        get_account_balance_try fs (Inr (JObj items)) = Inl (Exception ''Balance API Error''))
   \<and> get_account_balance fs (Inr (JObj items)) = Inr Map.empty
   \<and> get_account_balance fs (Inr JNull) = Inr Map.empty
   \<and> get_account_balance fs (Inr (JBool b)) = Inr Map.empty
   \<and> get_account_balance fs (Inr (JInt i)) = Inr Map.empty
   \<and> get_account_balance fs (Inr (JFloat r)) = Inr Map.empty
   \<and> get_account_balance fs (Inr (JStr s)) = Inr Map.empty
   \<and> (get_account_balance fs call = Inr Map.empty \<and> 0 < amount
        \<and> \<not> amount < MIN_WEEKLY_AMOUNT cfg \<longrightarrow>
        execute_buy_order cfg fs amount call t oc = Failure (InsufficientBalance 0)
        \<and> run_strategy cfg fs amount call t oc = Some (Failure (InsufficientBalance 0)))"
  using balance_total [of fs call] balance_handlers [of fs call] balance_call_raised [of fs e]
    balance_error_shaped [of items fs] balance_not_a_list [of fs]
    empty_balance_is_insufficient [of fs call amount cfg t oc]
  by (simp add: run_strategy_def)

theorem get_account_balance_failure_rejects_order_witness:
  "map_of [(''error'', JStr ''Network error: timed out'')] ''error'' \<noteq> None
   \<and> get_account_balance_try decimal_float_str (Inr error_reply)
       = Inl (Exception ''Balance API Error'')
   \<and> get_account_balance decimal_float_str (Inr error_reply) = Inr Map.empty
   \<and> (0::real) < 500 \<and> \<not> 500 < MIN_WEEKLY_AMOUNT example_config
   \<and> execute_buy_order example_config decimal_float_str 500 (Inr error_reply)
       (Inr ticker_reply) accepting_order_call = Failure (InsufficientBalance 0)
   \<and> run_strategy example_config decimal_float_str 500 (Inr error_reply)
       (Inr ticker_reply) accepting_order_call = Some (Failure (InsufficientBalance 0))"
  using get_account_balance_failure_rejects_order
    [where fs = decimal_float_str and call = "Inr error_reply"
       and items = "[(''error'', JStr ''Network error: timed out'')]"
       and amount = 500 and cfg = example_config and t = "Inr ticker_reply"
       and oc = accepting_order_call]
  by (simp add: error_reply_def example_config_def)

text \<open>
  Claim C10. With \<open>0 < min \<le> max\<close> configured, every amount that
  \<^verbatim>\<open>calculate_buy_amount\<close> returns is 0 or at least the minimum. So when the strategy
  step of \<^verbatim>\<open>run\<close> passes a positive decided amount to \<^verbatim>\<open>execute_buy_order\<close>, the test
  \<^verbatim>\<open>amount_aud < MIN_WEEKLY_AMOUNT\<close> is false, the result is that of the \<^verbatim>\<open>try\<close> block, and
  it is never the failure \<^verbatim>\<open>Amount below minimum\<close>.
\<close>

theorem amount_below_minimum_unreachable:
  assumes "0 < MIN_WEEKLY_AMOUNT cfg"
    and "MIN_WEEKLY_AMOUNT cfg \<le> MAX_WEEKLY_AMOUNT cfg"
  shows "(fst (calculate_buy_amount cfg R S) = 0
          \<or> MIN_WEEKLY_AMOUNT cfg \<le> fst (calculate_buy_amount cfg R S))
    \<and> (0 < fst (calculate_buy_amount cfg R S) \<longrightarrow>
          \<not> fst (calculate_buy_amount cfg R S) < MIN_WEEKLY_AMOUNT cfg
          \<and> run_strategy cfg fs (fst (calculate_buy_amount cfg R S)) b t oc =
              Some (case execute_buy_order_try fs (fst (calculate_buy_amount cfg R S)) b t oc of
                      Inr result \<Rightarrow> result
                    | Inl e \<Rightarrow> Failure (Caught e))
          \<and> run_strategy cfg fs (fst (calculate_buy_amount cfg R S)) b t oc
              \<noteq> Some (Failure AmountBelowMinimum))"
proof -
  let ?a = "fst (calculate_buy_amount cfg R S)"
  have band: "?a = 0 \<or> MIN_WEEKLY_AMOUNT cfg \<le> ?a"
    using assms by (rule amount_zero_or_minimum)
  have reached: "\<not> ?a < MIN_WEEKLY_AMOUNT cfg" if "0 < ?a"
    using band that by auto
  have body: "run_strategy cfg fs ?a b t oc =
      Some (case execute_buy_order_try fs ?a b t oc of
              Inr result \<Rightarrow> result | Inl e \<Rightarrow> Failure (Caught e))" if "0 < ?a"
    using that reached by (simp add: run_strategy_def execute_buy_order_def)
  have other: "run_strategy cfg fs ?a b t oc \<noteq> Some (Failure AmountBelowMinimum)" if "0 < ?a"
    using body [OF that] order_body_reasons [of fs ?a b t oc]
    by (auto split: sum.splits)
  show ?thesis
    using band reached body other by blast
qed

theorem amount_below_minimum_unreachable_witness:
  "0 < MIN_WEEKLY_AMOUNT example_config
   \<and> MIN_WEEKLY_AMOUNT example_config \<le> MAX_WEEKLY_AMOUNT example_config
   \<and> fst (calculate_buy_amount example_config 0.5 10) = 2000
   \<and> (0::real) < 2000
   \<and> \<not> fst (calculate_buy_amount example_config 0.5 10) < MIN_WEEKLY_AMOUNT example_config
   \<and> run_strategy example_config decimal_float_str
        (fst (calculate_buy_amount example_config 0.5 10)) (Inr error_reply) (Inr ticker_reply)
        accepting_order_call \<noteq> Some (Failure AmountBelowMinimum)"
proof -
  have lo: "0 < MIN_WEEKLY_AMOUNT example_config"
    by (simp add: example_config_def)
  have band: "MIN_WEEKLY_AMOUNT example_config \<le> MAX_WEEKLY_AMOUNT example_config"
    by (simp add: example_config_def)
  have amount: "fst (calculate_buy_amount example_config 0.5 10) = 2000"
    by (rule example_amounts(1))
  have positive: "0 < fst (calculate_buy_amount example_config 0.5 10)"
    using amount by simp
  note main = amount_below_minimum_unreachable [OF lo band, of "0.5" 10 decimal_float_str
      "Inr error_reply" "Inr ticker_reply" accepting_order_call]
  have reached:
    "\<not> fst (calculate_buy_amount example_config 0.5 10) < MIN_WEEKLY_AMOUNT example_config"
    using main positive by blast
  have other: "run_strategy example_config decimal_float_str
      (fst (calculate_buy_amount example_config 0.5 10)) (Inr error_reply) (Inr ticker_reply)
      accepting_order_call \<noteq> Some (Failure AmountBelowMinimum)"
    using main positive by blast
  have two_thousand: "(0::real) < 2000"
    by simp
  show ?thesis
    using lo band amount two_thousand reached other by blast
qed

section \<open>Properties of the API client\<close>

lemma char_of_nat_bits:
  "char_of (n::nat) = Char (odd n) (odd (n div 2)) (odd (n div 4)) (odd (n div 8))
     (odd (n div 16)) (odd (n div 32)) (odd (n div 64)) (odd (n div 128))"
  by (simp add: char_of_def bit_iff_odd_drop_bit drop_bit_eq_div)

lemma map_of_dict_set:
  "map_of (dict_set items k v) k' = (if k' = k then Some v else map_of items k')"
  by (induction items k v rule: dict_set.induct) auto

subsection \<open>Signing\<close>

lemma build_headers_entries:
  "map_of (fst (build_headers h ta m ak pk p body r)) ''BM-AUTH-SIGNATURE'' =
     Some (spec_signature h pk (canonical_message m p (str_int (trunc (ta r * 1000))) body))"
  "map_of (fst (build_headers h ta m ak pk p body r)) ''BM-AUTH-TIMESTAMP'' =
     Some (str_int (trunc (ta r * 1000)))"
  "map_of (fst (build_headers h ta m ak pk p body r)) ''BM-AUTH-APIKEY'' = Some ak"
  "snd (build_headers h ta m ak pk p body r) = Suc r"
  by (simp_all add: build_headers_def time_time_def Let_def sign_message_def
        spec_signature_def canonical_message_def split: option.splits)

lemma request_headers:
  "req_headers (fst (make_http_request h d ta self m ak pk p q dat r)) =
     fst (build_headers h ta m ak pk p (map_option (d ('','', '':'')) dat) r)"
  "snd (make_http_request h d ta self m ak pk p q dat r) = Suc r"
  by (simp_all add: make_http_request_def build_headers_def time_time_def Let_def
        split: prod.splits)

lemma request_data:
  "req_data (fst (make_http_request h d ta self ''POST'' ak pk p q (Some payload) r)) =
     (if d ('','', '':'') payload = [] then None else Some (d ('','', '':'') payload))"
  by (simp add: make_http_request_def build_headers_def time_time_def Let_def
        split: prod.splits)

lemma timestamp_example: "str_int (trunc (1700000000.123 * 1000)) = ''1700000000123''"
  by (simp add: trunc_def str_int_def digit_char_def char_of_nat_bits)

lemma client_init_cases:
  "BTCMarketsClient_init k s =
     (case b64decode s of
        Inl e \<Rightarrow> Inl e
      | Inr key \<Rightarrow>
          Inr \<lparr>base_url = ''https://api.btcmarkets.net'', api_key = k, private_key = key\<rparr>)"
  by (simp add: BTCMarketsClient_init_def bind_exn_def split: sum.splits)

lemma http_call_result:
  "fst (make_http_call h d ta uo self m ak pk p q dat r) =
     handle_outcome (uo (fst (make_http_request h d ta self m ak pk p q dat r)))"
  by (simp add: make_http_call_def split_beta)

lemma order_request:
  "fst (place_market_buy_order h d ta uo self market amount r) =
     handle_outcome (uo (fst (make_http_request h d ta self ''POST'' (api_key self)
       (private_key self) ''/v3/orders'' None
       (Some (JObj [(''marketId'', JStr market), (''amount'', JStr amount),
                    (''type'', JStr ''Market''), (''side'', JStr ''Bid'')])) r)))"
  by (simp add: place_market_buy_order_def http_call_result)

text \<open>
  Claim C3. For every request that \<^verbatim>\<open>__make_http_call\<close> builds, with method \<open>m\<close>, path
  \<open>p\<close>, key \<open>pk\<close> and optional body \<open>dat\<close>: the \<^verbatim>\<open>BM-AUTH-SIGNATURE\<close> header is the
  Base64 text of the HMAC-SHA512 digest, under \<open>pk\<close>, of method, path and millisecond
  timestamp followed by the body serialised with the separators \<^verbatim>\<open>(',', ':')\<close>, when there
  is a body; the \<^verbatim>\<open>BM-AUTH-TIMESTAMP\<close> header is the very string that was signed; the
  clock is read exactly once; the body sent with a \<^verbatim>\<open>POST\<close> is the string that was
  signed; the key of a constructed client is the decoded secret, and it is the key under
  which an order is signed. At the clock reading 1700000000.123 the timestamp is
  \<^verbatim>\<open>1700000000123\<close>.
\<close>

theorem request_signature_and_timestamp:
  "map_of (req_headers (fst (make_http_request h d ta self m ak pk p q dat r)))
       ''BM-AUTH-SIGNATURE'' =
     Some (spec_signature h pk
            (canonical_message m p (str_int (trunc (ta r * 1000)))
               (map_option (d ('','', '':'')) dat)))
   \<and> map_of (req_headers (fst (make_http_request h d ta self m ak pk p q dat r)))
       ''BM-AUTH-TIMESTAMP'' = Some (str_int (trunc (ta r * 1000)))
   \<and> snd (make_http_request h d ta self m ak pk p q dat r) = Suc r
   \<and> snd (make_http_call h d ta uo self m ak pk p q dat r) = Suc r
   \<and> req_data (fst (make_http_request h d ta self ''POST'' ak pk p q (Some payload) r)) =
       (if d ('','', '':'') payload = [] then None else Some (d ('','', '':'') payload))
   \<and> spec_signature h pk (canonical_message m p ts (Some text)) =
       b64encode (h pk (m @ p @ ts @ text))
   \<and> spec_signature h pk (canonical_message m p ts None) = b64encode (h pk (m @ p @ ts))
   \<and> BTCMarketsClient_init k secret =
       (case b64decode secret of
          Inl e \<Rightarrow> Inl e
        | Inr key \<Rightarrow>
            Inr \<lparr>base_url = ''https://api.btcmarkets.net'', api_key = k, private_key = key\<rparr>)
   \<and> fst (place_market_buy_order h d ta uo self market amount r) =
       handle_outcome (uo (fst (make_http_request h d ta self ''POST'' (api_key self)
         (private_key self) ''/v3/orders'' None
         (Some (JObj [(''marketId'', JStr market), (''amount'', JStr amount),
                      (''type'', JStr ''Market''), (''side'', JStr ''Bid'')])) r)))
   \<and> str_int (trunc (1700000000.123 * 1000)) = ''1700000000123''"
proof -
  have signature: "map_of (req_headers (fst (make_http_request h d ta self m ak pk p q dat r)))
        ''BM-AUTH-SIGNATURE'' =
      Some (spec_signature h pk
             (canonical_message m p (str_int (trunc (ta r * 1000)))
                (map_option (d ('','', '':'')) dat)))"
    by (simp only: request_headers build_headers_entries)
  have timestamp: "map_of (req_headers (fst (make_http_request h d ta self m ak pk p q dat r)))
        ''BM-AUTH-TIMESTAMP'' = Some (str_int (trunc (ta r * 1000)))"
    by (simp only: request_headers build_headers_entries)
  have call_clock: "snd (make_http_call h d ta uo self m ak pk p q dat r) = Suc r"
    using request_headers(2) [of h d ta self m ak pk p q dat r]
    by (simp add: make_http_call_def split_beta)
  have with_body: "spec_signature h pk (canonical_message m p ts (Some text)) =
      b64encode (h pk (m @ p @ ts @ text))"
    by (simp add: spec_signature_def canonical_message_def)
  have without_body: "spec_signature h pk (canonical_message m p ts None) =
      b64encode (h pk (m @ p @ ts))"
    by (simp add: spec_signature_def canonical_message_def)
  show ?thesis
    by (intro conjI)
      (rule signature timestamp request_headers(2) call_clock request_data with_body
         without_body client_init_cases order_request timestamp_example)+
qed

subsection \<open>Errors as values\<close>

lemma handle_outcome_total: "\<exists>v. handle_outcome outcome = Inr v"
  by (auto simp add: handle_outcome_def bind_exn_def
        split: urlopen_outcome.splits sum.splits option.splits)

lemma handle_outcome_shape:
  "handle_outcome outcome =
     (case outcome of
        Replied code (Inr response_data) \<Rightarrow> Inr response_data
      | Replied code (Inl msg) \<Rightarrow>
          Inr (JObj [(''error'', JStr (''Unexpected error: '' @ msg))])
      | RaisedHTTPError code reason (Some (JObj items)) \<Rightarrow>
          Inr (JObj (dict_set items ''statusCode'' (JInt (int code))))
      | RaisedHTTPError code reason _ \<Rightarrow>
          Inr (JObj [(''error'', JStr (''HTTP '' @ str_nat code @ '': '' @ reason)),
                     (''statusCode'', JInt (int code))])
      | RaisedURLError reason \<Rightarrow> Inr (JObj [(''error'', JStr (''Network error: '' @ reason))])
      | RaisedOther msg \<Rightarrow> Inr (JObj [(''error'', JStr (''Unexpected error: '' @ msg))]))"
proof (cases outcome)
  case (Replied code body)
  then show ?thesis
    by (cases body) (simp_all add: handle_outcome_def)
next
  case (RaisedHTTPError code reason error_body)
  show ?thesis
  proof (cases error_body)
    case None
    with RaisedHTTPError show ?thesis
      by (simp add: handle_outcome_def bind_exn_def)
  next
    case (Some error_data)
    with RaisedHTTPError show ?thesis
      by (cases error_data) (simp_all add: handle_outcome_def bind_exn_def)
  qed
next
  case (RaisedURLError reason)
  then show ?thesis
    by (simp add: handle_outcome_def)
next
  case (RaisedOther msg)
  then show ?thesis
    by (simp add: handle_outcome_def)
qed

lemma failures_are_marked:
  "bind_exn (handle_outcome outcome) is_error_reply =
     (case outcome of
        Replied code (Inr response_data) \<Rightarrow> is_error_reply response_data
      | _ \<Rightarrow> Inr True)"
proof (cases outcome)
  case (Replied code body)
  then show ?thesis
    by (cases body) (simp_all add: handle_outcome_def bind_exn_def is_error_reply_def)
next
  case (RaisedHTTPError code reason error_body)
  show ?thesis
  proof (cases error_body)
    case None
    with RaisedHTTPError show ?thesis
      by (simp add: handle_outcome_def bind_exn_def is_error_reply_def)
  next
    case (Some error_data)
    with RaisedHTTPError show ?thesis
      by (cases error_data)
        (simp_all add: handle_outcome_def bind_exn_def is_error_reply_def map_of_dict_set)
  qed
next
  case (RaisedURLError reason)
  then show ?thesis
    by (simp add: handle_outcome_def bind_exn_def is_error_reply_def)
next
  case (RaisedOther msg)
  then show ?thesis
    by (simp add: handle_outcome_def bind_exn_def is_error_reply_def)
qed

lemma http_400_example:
  "handle_outcome (RaisedHTTPError 400 ''Bad Request''
       (Some (JObj [(''code'', JStr ''InvalidAmount'')]))) =
     Inr (JObj [(''code'', JStr ''InvalidAmount''), (''statusCode'', JInt 400)])"
  by (simp add: handle_outcome_def bind_exn_def)

lemma http_502_example:
  "handle_outcome (RaisedHTTPError 502 ''Bad Gateway'' None) =
     Inr (JObj [(''error'', JStr ''HTTP 502: Bad Gateway''), (''statusCode'', JInt 502)])"
  by (simp add: handle_outcome_def bind_exn_def digit_char_def char_of_nat_bits)

text \<open>
  Claim C4. Whatever \<^verbatim>\<open>urlopen\<close> does with the request that \<^verbatim>\<open>__make_http_call\<close>
  builds, the call returns a value, and which value is fixed by what \<^verbatim>\<open>urlopen\<close> did.
  After an \<^verbatim>\<open>HTTPError\<close> whose body decodes to a JSON object, it is that object with
  the status code stored under \<^verbatim>\<open>statusCode\<close> and every other entry kept; when the body
  does not decode (or decodes to something that takes no key) it is the object of
  \<^verbatim>\<open>error\<close> and \<^verbatim>\<open>statusCode\<close>. After a \<^verbatim>\<open>URLError\<close>, or any other exception of the
  call or of reading the reply, it is an object whose \<^verbatim>\<open>error\<close> entry carries the
  message. Every value returned for a failure carries one of the two markers that the
  callers test. A status 400 with body \<^verbatim>\<open>{"code": "InvalidAmount"}\<close> comes back as
  that object with \<^verbatim>\<open>statusCode\<close> 400, a status 502 without a JSON body as the fallback
  object, and a time-out of the connection as an \<^verbatim>\<open>error\<close> object.
\<close>

theorem make_http_call_returns_errors_as_values:
  "fst (make_http_call h d ta uo self m ak pk p q dat r) =
     (case uo (fst (make_http_request h d ta self m ak pk p q dat r)) of
        Replied code (Inr response_data) \<Rightarrow> Inr response_data
      | Replied code (Inl msg) \<Rightarrow>
          Inr (JObj [(''error'', JStr (''Unexpected error: '' @ msg))])
      | RaisedHTTPError code reason (Some (JObj items)) \<Rightarrow>
          Inr (JObj (dict_set items ''statusCode'' (JInt (int code))))
      | RaisedHTTPError code reason _ \<Rightarrow>
          Inr (JObj [(''error'', JStr (''HTTP '' @ str_nat code @ '': '' @ reason)),
                     (''statusCode'', JInt (int code))])
      | RaisedURLError reason \<Rightarrow> Inr (JObj [(''error'', JStr (''Network error: '' @ reason))])
      | RaisedOther msg \<Rightarrow> Inr (JObj [(''error'', JStr (''Unexpected error: '' @ msg))]))
   \<and> (\<exists>v. fst (make_http_call h d ta uo self m ak pk p q dat r) = Inr v)
   \<and> map_of (dict_set body ''statusCode'' (JInt (int status))) key =
       (if key = ''statusCode'' then Some (JInt (int status)) else map_of body key)
   \<and> bind_exn (fst (make_http_call h d ta uo self m ak pk p q dat r)) is_error_reply =
       (case uo (fst (make_http_request h d ta self m ak pk p q dat r)) of
          Replied code (Inr response_data) \<Rightarrow> is_error_reply response_data
        | _ \<Rightarrow> Inr True)
   \<and> fst (make_http_call h d ta
            (\<lambda>request. RaisedHTTPError 400 ''Bad Request''
               (Some (JObj [(''code'', JStr ''InvalidAmount'')])))
            self m ak pk p q dat r) =
       Inr (JObj [(''code'', JStr ''InvalidAmount''), (''statusCode'', JInt 400)])
   \<and> fst (make_http_call h d ta (\<lambda>request. RaisedHTTPError 502 ''Bad Gateway'' None)
            self m ak pk p q dat r) =
       Inr (JObj [(''error'', JStr ''HTTP 502: Bad Gateway''), (''statusCode'', JInt 502)])
   \<and> fst (make_http_call h d ta (\<lambda>request. RaisedURLError ''timed out'')
            self m ak pk p q dat r) =
       Inr (JObj [(''error'', JStr ''Network error: timed out'')])"
proof -
  have shape: "fst (make_http_call h d ta uo self m ak pk p q dat r) =
     (case uo (fst (make_http_request h d ta self m ak pk p q dat r)) of
        Replied code (Inr response_data) \<Rightarrow> Inr response_data
      | Replied code (Inl msg) \<Rightarrow>
          Inr (JObj [(''error'', JStr (''Unexpected error: '' @ msg))])
      | RaisedHTTPError code reason (Some (JObj items)) \<Rightarrow>
          Inr (JObj (dict_set items ''statusCode'' (JInt (int code))))
      | RaisedHTTPError code reason _ \<Rightarrow>
          Inr (JObj [(''error'', JStr (''HTTP '' @ str_nat code @ '': '' @ reason)),
                     (''statusCode'', JInt (int code))])
      | RaisedURLError reason \<Rightarrow> Inr (JObj [(''error'', JStr (''Network error: '' @ reason))])
      | RaisedOther msg \<Rightarrow> Inr (JObj [(''error'', JStr (''Unexpected error: '' @ msg))]))"
    by (simp only: http_call_result handle_outcome_shape)
  have returns: "\<exists>v. fst (make_http_call h d ta uo self m ak pk p q dat r) = Inr v"
    using handle_outcome_total [of "uo (fst (make_http_request h d ta self m ak pk p q dat r))"]
    by (simp add: http_call_result)
  have marked: "bind_exn (fst (make_http_call h d ta uo self m ak pk p q dat r)) is_error_reply =
       (case uo (fst (make_http_request h d ta self m ak pk p q dat r)) of
          Replied code (Inr response_data) \<Rightarrow> is_error_reply response_data
        | _ \<Rightarrow> Inr True)"
    by (simp only: http_call_result failures_are_marked)
  have bad_request: "fst (make_http_call h d ta
            (\<lambda>request. RaisedHTTPError 400 ''Bad Request''
               (Some (JObj [(''code'', JStr ''InvalidAmount'')])))
            self m ak pk p q dat r) =
       Inr (JObj [(''code'', JStr ''InvalidAmount''), (''statusCode'', JInt 400)])"
    by (simp only: http_call_result http_400_example)
  have bad_gateway: "fst (make_http_call h d ta
            (\<lambda>request. RaisedHTTPError 502 ''Bad Gateway'' None) self m ak pk p q dat r) =
       Inr (JObj [(''error'', JStr ''HTTP 502: Bad Gateway''), (''statusCode'', JInt 502)])"
    by (simp only: http_call_result http_502_example)
  have timed_out: "fst (make_http_call h d ta (\<lambda>request. RaisedURLError ''timed out'')
            self m ak pk p q dat r) =
       Inr (JObj [(''error'', JStr ''Network error: timed out'')])"
    by (simp add: http_call_result handle_outcome_def)
  show ?thesis
    by (intro conjI)
      (rule shape returns map_of_dict_set marked bad_request bad_gateway timed_out)+
qed

subsection \<open>Construction\<close>

lemma decode_stray_characters: "b64decode ''abcd!!!!'' = Inr [CHR ''i'', CHR 0xB7, CHR 0x1D]"
  by (simp add: b64decode_def is_ascii_def b64_value_def b64_alphabet_def char_of_nat_bits)

lemma decode_padded: "b64decode ''YQ=='' = Inr ''a''"
  by (simp add: b64decode_def is_ascii_def b64_value_def b64_alphabet_def char_of_nat_bits)

text \<open>
  Claim C8, as stated, fails: the secret \<^verbatim>\<open>abcd!!!!\<close> is not valid base64, since \<^verbatim>\<open>!\<close>
  is not a character of the alphabet, and the constructor succeeds. The decoder drops the
  four stray characters and decodes \<^verbatim>\<open>abcd\<close>.
\<close>

theorem client_init_lenient_counterexample:
  "b64_value (CHR ''!'') = None
   \<and> BTCMarketsClient_init ''key'' ''abcd!!!!'' =
       Inr \<lparr>base_url = ''https://api.btcmarkets.net'', api_key = ''key'',
            private_key = [CHR ''i'', CHR 0xB7, CHR 0x1D]\<rparr>"
  by (simp add: client_init_cases decode_stray_characters b64_value_def b64_alphabet_def)

text \<open>What the decoder refuses, and what it lets through.\<close>

lemma index_of_none: "(index_of x xs = None) = (x \<notin> set xs)"
  by (induction xs) auto

lemma b64_value_none: "(b64_value c = None) = (c \<notin> set b64_alphabet)"
  by (simp add: b64_value_def index_of_none)

lemma alphabet_ascii: "c \<in> set b64_alphabet \<Longrightarrow> of_char c < (128::nat)"
  by (auto simp add: b64_alphabet_def)

lemma pad_not_in_alphabet: "CHR ''='' \<notin> set b64_alphabet"
  by (simp add: b64_alphabet_def)

lemma decode_discards:
  "a2b_base64 s q l p out =
     a2b_base64 (filter (\<lambda>c. c = CHR ''='' \<or> c \<in> set b64_alphabet) s) q l p out"
proof (induction s arbitrary: q l p out)
  case Nil
  show ?case by simp
next
  case (Cons c cs)
  show ?case
  proof (cases "c = CHR ''=''")
    case True
    then show ?thesis using Cons.IH by simp
  next
    case False
    show ?thesis
    proof (cases "b64_value c")
      case None
      with False show ?thesis using Cons.IH by (simp add: b64_value_none [symmetric])
    next
      case (Some v)
      then have "c \<in> set b64_alphabet"
        using b64_value_none [of c] by simp
      with False Some show ?thesis using Cons.IH by simp
    qed
  qed
qed

text \<open>
  A character of the alphabet moves the decoder to the next position of the group of
  four, whatever follows it.
\<close>

lemma decode_data_step:
  assumes "c \<in> set b64_alphabet" and "q < 4"
  shows "\<exists>l' out'. \<forall>s. a2b_base64 (c # s) q l p out = a2b_base64 s (Suc q mod 4) l' 0 out'"
proof -
  from assms(1) have no_pad: "c \<noteq> CHR ''=''"
    using pad_not_in_alphabet by auto
  from assms(1) obtain v where v: "b64_value c = Some v"
    using b64_value_none [of c] by (cases "b64_value c") auto
  consider "q = 0" | "q = 1" | "q = 2" | "q = 3"
    using assms(2) by linarith
  then show ?thesis
  proof cases
    case 1
    with v no_pad have "\<forall>s. a2b_base64 (c # s) q l p out = a2b_base64 s 1 v 0 out"
      by simp
    moreover have "Suc q mod 4 = 1"
      using 1 by simp
    ultimately show ?thesis by metis
  next
    case 2
    with v no_pad have
      "\<forall>s. a2b_base64 (c # s) q l p out =
         a2b_base64 s 2 (v mod 16) 0 (out @ [char_of (l * 4 + v div 16)])"
      by simp
    moreover have "Suc q mod 4 = 2"
      using 2 by simp
    ultimately show ?thesis by metis
  next
    case 3
    with v no_pad have
      "\<forall>s. a2b_base64 (c # s) q l p out =
         a2b_base64 s 3 (v mod 4) 0 (out @ [char_of (l * 16 + v div 4)])"
      by simp
    moreover have "Suc q mod 4 = 3"
      using 3 by simp
    ultimately show ?thesis by metis
  next
    case 4
    with v no_pad have
      "\<forall>s. a2b_base64 (c # s) q l p out =
         a2b_base64 s 0 0 0 (out @ [char_of (l * 64 + v)])"
      by simp
    moreover have "Suc q mod 4 = 0"
      using 4 by simp
    ultimately show ?thesis by metis
  qed
qed

lemma decode_unpadded:
  "CHR ''='' \<notin> set s \<Longrightarrow> q < 4 \<Longrightarrow>
   (if (q + length (filter (\<lambda>c. c \<in> set b64_alphabet) s)) mod 4 = 0
    then \<exists>bs. a2b_base64 s q l p out = Inr bs
    else a2b_base64 s q l p out = Inl BinasciiError)"
proof (induction s arbitrary: q l p out)
  case Nil
  then show ?case by simp
next
  case (Cons c cs)
  then have no_pad: "c \<noteq> CHR ''=''" "CHR ''='' \<notin> set cs"
    by auto
  show ?case
  proof (cases "c \<in> set b64_alphabet")
    case False
    then have "b64_value c = None"
      by (simp add: b64_value_none)
    with False no_pad Cons.IH [OF no_pad(2) Cons.prems(2), of l p out] show ?thesis
      by simp
  next
    case True
    from decode_data_step [OF True Cons.prems(2), of l p out] obtain l' out' where
      step: "a2b_base64 (c # cs) q l p out = a2b_base64 cs (Suc q mod 4) l' 0 out'"
      by blast
    have count: "(q + length (filter (\<lambda>c. c \<in> set b64_alphabet) (c # cs))) mod 4 =
        (Suc q mod 4 + length (filter (\<lambda>c. c \<in> set b64_alphabet) cs)) mod 4"
      using True by (simp add: mod_Suc_eq mod_add_left_eq)
    have "Suc q mod 4 < 4"
      by simp
    from Cons.IH [OF no_pad(2) this, of l' 0 out'] show ?thesis
      unfolding step count .
  qed
qed

lemma decode_stops_at_padding:
  "list_all (\<lambda>c. c \<in> set b64_alphabet) u \<Longrightarrow> q < 4 \<Longrightarrow>
   ((q + length u) mod 4 = 3 \<longrightarrow>
      a2b_base64 (u @ CHR ''='' # rest) q l p out = a2b_base64 (u @ ''='') q l p out
      \<and> (\<exists>bs. a2b_base64 (u @ ''='') q l p out = Inr bs))
   \<and> ((q + length u) mod 4 = 2 \<longrightarrow>
      a2b_base64 (u @ CHR ''='' # CHR ''='' # rest) q l p out = a2b_base64 (u @ ''=='') q l p out
      \<and> (\<exists>bs. a2b_base64 (u @ ''=='') q l p out = Inr bs))"
proof (induction u arbitrary: q l p out)
  case Nil
  then show ?case by auto
next
  case (Cons c cs)
  then have member: "c \<in> set b64_alphabet"
    and rest_ok: "list_all (\<lambda>c. c \<in> set b64_alphabet) cs"
    by simp_all
  from decode_data_step [OF member Cons.prems(2), of l p out] obtain l' out' where
    step: "\<And>s. a2b_base64 (c # s) q l p out = a2b_base64 s (Suc q mod 4) l' 0 out'"
    by blast
  have count: "(q + length (c # cs)) mod 4 = (Suc q mod 4 + length cs) mod 4"
    by (simp add: mod_Suc_eq mod_add_left_eq)
  have "Suc q mod 4 < 4"
    by simp
  from Cons.IH [OF rest_ok this, of l' 0 out'] show ?case
    unfolding append_Cons step count .
qed

text \<open>
  Claim C8, amended. The constructor fails exactly where \<^verbatim>\<open>base64.b64decode\<close> refuses
  the secret, with the decoder's exception, and otherwise holds the decoded key: the
  failure is at construction. The decoder refuses every secret with a character outside
  ASCII (\<^verbatim>\<open>ValueError\<close>). In an ASCII secret the characters that are neither of the
  alphabet nor \<^verbatim>\<open>=\<close> are discarded: the outcome is that of the secret without them. An
  ASCII secret without \<^verbatim>\<open>=\<close> is accepted when the number of its characters of the
  alphabet is a multiple of four, and refused (\<^verbatim>\<open>binascii.Error\<close>) otherwise. After
  characters of the alphabet that leave a group of four short by one or by two, one or two
  \<^verbatim>\<open>=\<close> complete the group: the secret is accepted and what follows the padding is not
  read. Signing is the Base64 text of the digest under the key: it decodes nothing and
  has no failing step.
\<close>

theorem client_init_fails_where_decoding_fails:
  "(BTCMarketsClient_init k secret = Inl e) = (b64decode secret = Inl e)
   \<and> (b64decode secret = Inr key \<longrightarrow>
        BTCMarketsClient_init k secret =
          Inr \<lparr>base_url = ''https://api.btcmarkets.net'', api_key = k, private_key = key\<rparr>)
   \<and> (\<not> is_ascii secret \<longrightarrow> BTCMarketsClient_init k secret = Inl ValueError)
   \<and> (is_ascii secret \<longrightarrow>
        BTCMarketsClient_init k secret =
          BTCMarketsClient_init k
            (filter (\<lambda>c. c = CHR ''='' \<or> c \<in> set b64_alphabet) secret))
   \<and> (is_ascii secret \<and> CHR ''='' \<notin> set secret \<longrightarrow>
        (if length (filter (\<lambda>c. c \<in> set b64_alphabet) secret) mod 4 = 0
         then \<exists>decoded. BTCMarketsClient_init k secret =
                Inr \<lparr>base_url = ''https://api.btcmarkets.net'', api_key = k,
                     private_key = decoded\<rparr>
         else BTCMarketsClient_init k secret = Inl BinasciiError))
   \<and> (list_all (\<lambda>c. c \<in> set b64_alphabet) u \<and> is_ascii rest \<and> length u mod 4 = 3 \<longrightarrow>
        BTCMarketsClient_init k (u @ ''='' @ rest) = BTCMarketsClient_init k (u @ ''='')
        \<and> (\<exists>decoded. b64decode (u @ ''='') = Inr decoded))
   \<and> (list_all (\<lambda>c. c \<in> set b64_alphabet) u \<and> is_ascii rest \<and> length u mod 4 = 2 \<longrightarrow>
        BTCMarketsClient_init k (u @ ''=='' @ rest) = BTCMarketsClient_init k (u @ ''=='')
        \<and> (\<exists>decoded. b64decode (u @ ''=='') = Inr decoded))
   \<and> sign_message h key message = b64encode (h key message)"
proof -
  have same_failure: "(BTCMarketsClient_init k secret = Inl e) = (b64decode secret = Inl e)"
    by (cases "b64decode secret") (simp_all add: client_init_cases)
  have holds_key: "BTCMarketsClient_init k secret =
      Inr \<lparr>base_url = ''https://api.btcmarkets.net'', api_key = k, private_key = key\<rparr>"
    if "b64decode secret = Inr key"
    using that by (simp add: client_init_cases)
  have not_ascii: "BTCMarketsClient_init k secret = Inl ValueError" if "\<not> is_ascii secret"
    using that by (simp add: client_init_cases b64decode_def)
  have discards: "BTCMarketsClient_init k secret =
      BTCMarketsClient_init k (filter (\<lambda>c. c = CHR ''='' \<or> c \<in> set b64_alphabet) secret)"
    if "is_ascii secret"
  proof -
    from that have "is_ascii (filter (\<lambda>c. c = CHR ''='' \<or> c \<in> set b64_alphabet) secret)"
      by (simp add: is_ascii_def list_all_iff)
    with that show ?thesis
      using decode_discards [of secret 0 0 0 "[]"] by (simp add: client_init_cases b64decode_def)
  qed
  have unpadded:
    "if length (filter (\<lambda>c. c \<in> set b64_alphabet) secret) mod 4 = 0
     then \<exists>decoded. BTCMarketsClient_init k secret =
            Inr \<lparr>base_url = ''https://api.btcmarkets.net'', api_key = k,
                 private_key = decoded\<rparr>
     else BTCMarketsClient_init k secret = Inl BinasciiError"
    if "is_ascii secret" and "CHR ''='' \<notin> set secret"
    using decode_unpadded [OF that(2), of 0 0 0 "[]"] that(1)
    by (auto simp add: client_init_cases b64decode_def)
  have ascii_data: "is_ascii u" if "list_all (\<lambda>c. c \<in> set b64_alphabet) u" for u
    using that alphabet_ascii by (auto simp add: is_ascii_def list_all_iff)
  have one_pad: "BTCMarketsClient_init k (u @ ''='' @ rest) = BTCMarketsClient_init k (u @ ''='')
      \<and> (\<exists>decoded. b64decode (u @ ''='') = Inr decoded)"
    if "list_all (\<lambda>c. c \<in> set b64_alphabet) u" and "is_ascii rest" and "length u mod 4 = 3"
  proof -
    have "is_ascii (u @ ''='' @ rest)" and "is_ascii (u @ ''='')"
      using ascii_data [OF that(1)] that(2) by (simp_all add: is_ascii_def)
    then show ?thesis
      using decode_stops_at_padding [OF that(1), of 0 rest 0 0 "[]"] that(3)
      by (simp add: client_init_cases b64decode_def)
  qed
  have two_pads:
    "BTCMarketsClient_init k (u @ ''=='' @ rest) = BTCMarketsClient_init k (u @ ''=='')
      \<and> (\<exists>decoded. b64decode (u @ ''=='') = Inr decoded)"
    if "list_all (\<lambda>c. c \<in> set b64_alphabet) u" and "is_ascii rest" and "length u mod 4 = 2"
  proof -
    have "is_ascii (u @ ''=='' @ rest)" and "is_ascii (u @ ''=='')"
      using ascii_data [OF that(1)] that(2) by (simp_all add: is_ascii_def)
    then show ?thesis
      using decode_stops_at_padding [OF that(1), of 0 rest 0 0 "[]"] that(3)
      by (simp add: client_init_cases b64decode_def)
  qed
  have signing: "sign_message h key message = b64encode (h key message)"
    by (simp add: sign_message_def)
  show ?thesis
    using same_failure holds_key not_ascii discards unpadded one_pad two_pads signing
    by blast
qed



theorem client_init_fails_where_decoding_fails_witness:
  "is_ascii ''YQ'' \<and> CHR ''='' \<notin> set ''YQ''
   \<and> length (filter (\<lambda>c. c \<in> set b64_alphabet) ''YQ'') = 2
   \<and> BTCMarketsClient_init ''key'' ''YQ'' = Inl BinasciiError
   \<and> b64decode ''YQ'' = Inl BinasciiError
   \<and> \<not> is_ascii [CHR 0xC3, CHR 0xA9]
   \<and> BTCMarketsClient_init ''key'' [CHR 0xC3, CHR 0xA9] = Inl ValueError
   \<and> is_ascii ''abcd!!!!''
   \<and> filter (\<lambda>c. c = CHR ''='' \<or> c \<in> set b64_alphabet) ''abcd!!!!'' = ''abcd''
   \<and> BTCMarketsClient_init ''key'' ''abcd!!!!'' = BTCMarketsClient_init ''key'' ''abcd''
   \<and> list_all (\<lambda>c. c \<in> set b64_alphabet) ''YQ'' \<and> length ''YQ'' mod 4 = 2
   \<and> BTCMarketsClient_init ''key'' ''YQ==YQ'' = BTCMarketsClient_init ''key'' ''YQ==''
   \<and> BTCMarketsClient_init ''key'' ''YQ=='' =
       Inr \<lparr>base_url = ''https://api.btcmarkets.net'', api_key = ''key'', private_key = ''a''\<rparr>"
proof -
  note refused = client_init_fails_where_decoding_fails
    [where secret = "''YQ''" and k = "''key''" and e = BinasciiError]
  note not_text = client_init_fails_where_decoding_fails
    [where secret = "[CHR 0xC3, CHR 0xA9]" and k = "''key''"]
  note stray = client_init_fails_where_decoding_fails
    [where secret = "''abcd!!!!''" and k = "''key''"]
  note padded = client_init_fails_where_decoding_fails
    [where secret = "''YQ==''" and k = "''key''" and key = "''a''" and u = "''YQ''"
       and rest = "''YQ''"]
  have ascii: "is_ascii ''YQ''" "is_ascii ''abcd!!!!''" "\<not> is_ascii [CHR 0xC3, CHR 0xA9]"
    by (simp_all add: is_ascii_def)
  have no_pad: "CHR ''='' \<notin> set ''YQ''"
    by simp
  have two: "length (filter (\<lambda>c. c \<in> set b64_alphabet) ''YQ'') = 2"
    by (simp add: b64_alphabet_def)
  have data: "list_all (\<lambda>c. c \<in> set b64_alphabet) ''YQ''" "length ''YQ'' mod 4 = 2"
    by (simp_all add: b64_alphabet_def)
  have kept: "filter (\<lambda>c. c = CHR ''='' \<or> c \<in> set b64_alphabet) ''abcd!!!!'' = ''abcd''"
    by (simp add: b64_alphabet_def)
  have unpadded: "is_ascii ''YQ'' \<and> CHR ''='' \<notin> set ''YQ''"
    using ascii(1) no_pad by (rule conjI)
  have padding: "list_all (\<lambda>c. c \<in> set b64_alphabet) ''YQ'' \<and> is_ascii ''YQ''
      \<and> length ''YQ'' mod 4 = 2"
    using data ascii(1) by (intro conjI)
  from refused [THEN conjunct2, THEN conjunct2, THEN conjunct2, THEN conjunct2, THEN conjunct1]
    unpadded
  have "if length (filter (\<lambda>c. c \<in> set b64_alphabet) ''YQ'') mod 4 = 0
     then \<exists>decoded. BTCMarketsClient_init ''key'' ''YQ'' =
            Inr \<lparr>base_url = ''https://api.btcmarkets.net'', api_key = ''key'',
                 private_key = decoded\<rparr>
     else BTCMarketsClient_init ''key'' ''YQ'' = Inl BinasciiError"
    by (rule mp)
  then have init_refused: "BTCMarketsClient_init ''key'' ''YQ'' = Inl BinasciiError"
    unfolding two by simp
  from refused [THEN conjunct1] init_refused
  have decode_refused: "b64decode ''YQ'' = Inl BinasciiError"
    by (rule iffD1)
  from not_text [THEN conjunct2, THEN conjunct2, THEN conjunct1] ascii(3)
  have init_not_text: "BTCMarketsClient_init ''key'' [CHR 0xC3, CHR 0xA9] = Inl ValueError"
    by (rule mp)
  from stray [THEN conjunct2, THEN conjunct2, THEN conjunct2, THEN conjunct1] ascii(2)
  have "BTCMarketsClient_init ''key'' ''abcd!!!!'' =
      BTCMarketsClient_init ''key''
        (filter (\<lambda>c. c = CHR ''='' \<or> c \<in> set b64_alphabet) ''abcd!!!!'')"
    by (rule mp)
  then have init_stray:
    "BTCMarketsClient_init ''key'' ''abcd!!!!'' = BTCMarketsClient_init ''key'' ''abcd''"
    unfolding kept .
  from padded [THEN conjunct2, THEN conjunct2, THEN conjunct2, THEN conjunct2,
      THEN conjunct2, THEN conjunct2, THEN conjunct1] padding
  have "BTCMarketsClient_init ''key'' (''YQ'' @ ''=='' @ ''YQ'') =
        BTCMarketsClient_init ''key'' (''YQ'' @ ''=='')
      \<and> (\<exists>decoded. b64decode (''YQ'' @ ''=='') = Inr decoded)"
    by (rule mp)
  then have init_rest:
    "BTCMarketsClient_init ''key'' ''YQ==YQ'' = BTCMarketsClient_init ''key'' ''YQ==''"
    by simp
  from padded [THEN conjunct2, THEN conjunct1] decode_padded
  have init_padded: "BTCMarketsClient_init ''key'' ''YQ=='' =
      Inr \<lparr>base_url = ''https://api.btcmarkets.net'', api_key = ''key'', private_key = ''a''\<rparr>"
    by (rule mp)
  show ?thesis
    by (intro conjI)
      (rule ascii no_pad two init_refused decode_refused init_not_text kept init_stray data
         init_rest init_padded)+
qed

section \<open>Properties of balance parsing\<close>















section \<open>Properties of the price ratio\<close>

lemma map_exn_append:
  "map_exn f (xs @ zs) =
     bind_exn (map_exn f xs) (\<lambda>a. bind_exn (map_exn f zs) (\<lambda>b. Inr (a @ b)))"
  by (induction xs) (simp_all add: bind_exn_def split: sum.splits)

lemma map_exn_rev: "map_exn f xs = Inr ys \<Longrightarrow> map_exn f (rev xs) = Inr (rev ys)"
proof (induction xs arbitrary: ys)
  case Nil
  then show ?case by simp
next
  case (Cons x xs)
  then show ?case
    by (auto simp add: map_exn_append bind_exn_def split: sum.splits)
qed

lemma map_exn_length: "map_exn f xs = Inr ys \<Longrightarrow> length ys = length xs"
  by (induction xs arbitrary: ys) (auto simp add: bind_exn_def split: sum.splits)

lemma map_exn_replicate: "f x = Inr y \<Longrightarrow> map_exn f (replicate n x) = Inr (replicate n y)"
  by (induction n) (simp_all add: bind_exn_def)

lemma last_n_of_reversed:
  "0 < k \<Longrightarrow> k \<le> length ys \<Longrightarrow> py_last_n k (rev ys) = rev (take k ys)"
  by (simp add: py_last_n_def rev_take)

lemma mean_of_window:
  "0 < k \<Longrightarrow> k \<le> length ys \<Longrightarrow>
   np_mean (py_last_n k (rev ys)) = sum_list (take k ys) / of_nat k"
  by (simp add: last_n_of_reversed np_mean_def min_def)

lemma tuples_not_error: "list_all is_tuple cs \<Longrightarrow> is_error_reply (JArr cs) = Inr False"
  by (auto simp add: is_error_reply_def bind_exn_def list_all_iff)

lemma reversed_length: "py_reversed candles = Inr xs \<Longrightarrow> py_len candles = Inr (length xs)"
  by (cases candles) auto

lemma window_mean:
  assumes "map_exn (close_price fs) cs = Inr closes" and "50 \<le> length cs"
  shows "np_mean (py_last_n (min 200 (length closes)) (rev closes)) = recent_mean closes"
proof -
  have len: "length closes = length cs"
    using assms(1) by (rule map_exn_length)
  have k: "0 < min 200 (length closes)" "min 200 (length closes) \<le> length closes"
    using assms(2) len by auto
  show ?thesis
    using mean_of_window [OF k] by (simp add: recent_mean_def)
qed

lemma ratio_of_feed:
  assumes "list_all is_tuple cs" and "map_exn (close_price fs) cs = Inr closes"
    and "50 \<le> length cs" and "get_current_price fs tc = Inr p"
  shows "get_mayer_multiple fs (Inr (JArr cs)) tc = Inr (np_divide p (recent_mean closes))"
proof -
  have len: "length closes = length cs"
    using assms(2) by (rule map_exn_length)
  have ne: "cs \<noteq> []"
    using assms(3) by auto
  have chronological: "map_exn (close_price fs) (rev cs) = Inr (rev closes)"
    using assms(2) by (rule map_exn_rev)
  show ?thesis
    using assms(3,4) len ne chronological window_mean [OF assms(2,3)]
      tuples_not_error [OF assms(1)]
    by (simp add: get_mayer_multiple_def bind_exn_def Let_def)
qed

lemma short_feed_raises:
  "length cs < 50 \<Longrightarrow> \<exists>e. get_mayer_multiple fs (Inr (JArr cs)) tc = Inl e"
  by (auto simp add: get_mayer_multiple_def bind_exn_def Let_def dest: map_exn_length
        split: sum.splits)

lemma short_feed_exception:
  assumes "list_all is_tuple cs" and "map_exn (close_price fs) cs = Inr closes"
    and "length cs < 50"
  shows "get_mayer_multiple fs (Inr (JArr cs)) tc =
     Inl (Exception (if cs = [] then ''No candle data received''
                     else ''Insufficient price data''))"
  using assms(3) map_exn_rev [OF assms(2)] map_exn_length [OF assms(2)]
    tuples_not_error [OF assms(1)]
  by (simp add: get_mayer_multiple_def bind_exn_def Let_def)

lemma ratio_needs_fifty:
  assumes "get_mayer_multiple fs call tc = Inr q"
  shows "\<exists>candles n. call = Inr candles \<and> py_len candles = Inr n \<and> 50 \<le> n"
proof -
  from assms obtain candles where c: "call = Inr candles"
    by (cases call) (simp_all add: get_mayer_multiple_def bind_exn_def)
  from assms c obtain xs prices where
    xs: "py_reversed candles = Inr xs" and
    prices: "map_exn (close_price fs) xs = Inr prices" and
    enough: "\<not> length prices < 50"
    by (auto simp add: get_mayer_multiple_def bind_exn_def Let_def
          split: sum.splits if_splits)
  have "py_len candles = Inr (length xs)"
    using xs by (rule reversed_length)
  moreover have "length prices = length xs"
    using prices by (rule map_exn_length)
  ultimately show ?thesis
    using c enough by auto
qed

text \<open>
  Claim C5. For every candle list \<open>cs\<close> of the feed, newest first: the close of a
  candle is \<^verbatim>\<open>float\<close> of its element at index 4, and the closes are read in reversed,
  chronological order; with fewer than 50 candles the method raises (\<^verbatim>\<open>No candle data
  received\<close> for none, \<^verbatim>\<open>Insufficient price data\<close> otherwise), and whatever the reply it
  returns a ratio only from at least 50 points; with 50 or more it returns the current
  price divided by the unweighted mean of the \<open>min(200, count)\<close> most recent closes,
  which is the mean that the code takes over the last \<open>min(200, count)\<close> entries of the
  chronological list. A mean of zero makes the quotient an infinity or a NaN, which the
  model keeps apart from the real ratios.
\<close>

theorem mayer_multiple_of_recent_closes:
  "(length cs < 50 \<longrightarrow> (\<exists>e. get_mayer_multiple fs (Inr (JArr cs)) tc = Inl e))
   \<and> (get_mayer_multiple fs call tc = Inr q \<longrightarrow>
        (\<exists>candles n. call = Inr candles \<and> py_len candles = Inr n \<and> 50 \<le> n))
   \<and> (list_all is_tuple cs \<and> map_exn (close_price fs) cs = Inr closes \<longrightarrow>
        map_exn (close_price fs) (rev cs) = Inr (rev closes)
        \<and> (length cs < 50 \<longrightarrow>
             get_mayer_multiple fs (Inr (JArr cs)) tc =
               Inl (Exception (if cs = [] then ''No candle data received''
                               else ''Insufficient price data'')))
        \<and> (50 \<le> length cs \<and> get_current_price fs tc = Inr p \<longrightarrow>
             get_mayer_multiple fs (Inr (JArr cs)) tc = Inr (np_divide p (recent_mean closes))
             \<and> np_mean (py_last_n (min 200 (length closes)) (rev closes))
                 = recent_mean closes))
   \<and> np_divide p mean = (if mean = 0 then NonFinite else Finite (p / mean))
   \<and> close_price fs (JArr cells) = bind_exn (list_index cells 4) (py_float fs)"
proof -
  have divide: "np_divide p mean = (if mean = 0 then NonFinite else Finite (p / mean))"
    by (simp add: np_divide_def)
  have close: "close_price fs (JArr cells) = bind_exn (list_index cells 4) (py_float fs)"
    by (simp add: close_price_def)
  show ?thesis
    using short_feed_raises [of cs fs tc] ratio_needs_fifty [of fs call tc q]
      map_exn_rev [of "close_price fs" cs closes] short_feed_exception [of cs fs closes tc]
      ratio_of_feed [of cs fs closes tc p] window_mean [of fs cs closes] divide close
    by blast
qed

lemma close_300: "close_price decimal_float_str (candle ''300'') = Inr 300"
  by (simp add: close_price_def candle_def list_index_def bind_exn_def decimal_float_str_def
        digit_value_def)

lemma close_100: "close_price decimal_float_str (candle ''100'') = Inr 100"
  by (simp add: close_price_def candle_def list_index_def bind_exn_def decimal_float_str_def
        digit_value_def)

lemma feeds_of_tuples: "list_all is_tuple feed_201" "list_all is_tuple feed_49"
  by (simp_all add: feed_201_def feed_49_def candle_def list_all_iff)

lemma closes_201:
  "map_exn (close_price decimal_float_str) feed_201 = Inr (300 # replicate 200 100)"
  by (simp add: feed_201_def close_300 bind_exn_def
        map_exn_replicate [where f = "close_price decimal_float_str", OF close_100])

lemma closes_49: "map_exn (close_price decimal_float_str) feed_49 = Inr (replicate 49 100)"
  by (simp add: feed_49_def
        map_exn_replicate [where f = "close_price decimal_float_str", OF close_100])

lemma feed_lengths: "length feed_201 = 201" "length feed_49 = 49" "feed_49 \<noteq> []"
  by (simp_all add: feed_201_def feed_49_def)

lemma price_202: "get_current_price decimal_float_str (Inr ticker_202) = Inr 202"
  by (simp add: get_current_price_def ticker_202_def bind_exn_def is_error_reply_def
        decimal_float_str_def digit_value_def)

lemma mean_101: "recent_mean (300 # replicate 200 100) = 101"
  by (simp add: recent_mean_def sum_list_replicate)

lemma mean_without_reversal: "np_mean (py_last_n 200 (300 # replicate 200 100)) = 100"
  by (simp add: np_mean_def py_last_n_def sum_list_replicate)

text \<open>
  The feed of 201 candles tells the reversal: the newest candle, at 300, is in the window
  of 200 and the oldest is not, so the mean is 101 and a price of 202 gives the ratio 2;
  the last 200 entries of the feed as it arrives have the mean 100. The feed of 49
  candles raises.
\<close>

theorem mayer_multiple_of_recent_closes_witness:
  "list_all is_tuple feed_201
   \<and> map_exn (close_price decimal_float_str) feed_201 = Inr (300 # replicate 200 100)
   \<and> map_exn (close_price decimal_float_str) (rev feed_201)
       = Inr (rev (300 # replicate 200 100))
   \<and> 50 \<le> length feed_201
   \<and> get_current_price decimal_float_str (Inr ticker_202) = Inr 202
   \<and> recent_mean (300 # replicate 200 100) = 101
   \<and> np_mean (py_last_n 200 (300 # replicate 200 100)) = 100
   \<and> get_mayer_multiple decimal_float_str (Inr (JArr feed_201)) (Inr ticker_202)
       = Inr (Finite 2)
   \<and> (\<exists>candles n. Inr (JArr feed_201) = (Inr candles :: exn + json)
         \<and> py_len candles = Inr n \<and> 50 \<le> n)
   \<and> length feed_49 < 50
   \<and> map_exn (close_price decimal_float_str) feed_49 = Inr (replicate 49 100)
   \<and> get_mayer_multiple decimal_float_str (Inr (JArr feed_49)) (Inr ticker_202)
       = Inl (Exception ''Insufficient price data'')"
proof -
  note long = mayer_multiple_of_recent_closes
    [where cs = feed_201 and fs = decimal_float_str and tc = "Inr ticker_202"
       and closes = "300 # replicate 200 100" and p = 202 and mean = 101
       and call = "Inr (JArr feed_201)" and q = "Finite 2"]
  note short = mayer_multiple_of_recent_closes
    [where cs = feed_49 and fs = decimal_float_str and tc = "Inr ticker_202"
       and closes = "replicate 49 100"]
  have enough: "50 \<le> length feed_201"
    by (simp add: feed_lengths)
  have few: "length feed_49 < 50"
    by (simp add: feed_lengths)
  have chronological: "map_exn (close_price decimal_float_str) (rev feed_201)
      = Inr (rev (300 # replicate 200 100))"
    using long feeds_of_tuples(1) closes_201 by blast
  have ratio: "get_mayer_multiple decimal_float_str (Inr (JArr feed_201)) (Inr ticker_202)
      = Inr (np_divide 202 (recent_mean (300 # replicate 200 100)))"
    using long feeds_of_tuples(1) closes_201 enough price_202 by blast
  have two: "np_divide 202 (recent_mean (300 # replicate 200 100)) = Finite 2"
    by (simp add: mean_101 np_divide_def)
  have result: "get_mayer_multiple decimal_float_str (Inr (JArr feed_201)) (Inr ticker_202)
      = Inr (Finite 2)"
    using ratio two by simp
  have points: "\<exists>candles n. Inr (JArr feed_201) = (Inr candles :: exn + json)
      \<and> py_len candles = Inr n \<and> 50 \<le> n"
    using long result by blast
  have raised: "get_mayer_multiple decimal_float_str (Inr (JArr feed_49)) (Inr ticker_202)
      = Inl (Exception ''Insufficient price data'')"
    using short feeds_of_tuples(2) closes_49 few feed_lengths(3) by simp
  show ?thesis
    using feeds_of_tuples(1) closes_201 chronological enough price_202 mean_101
      mean_without_reversal result points few closes_49 raised
    by blast
qed

end
